theory Spec2Isabelle
  imports Complex_Main "HOL-Library.Multiset"
begin

section \<open>JavaScript values\<close>

text \<open>
  The application is TypeScript running in a browser. A JavaScript number is modelled as
  an exact rational or \<open>NaN\<close>: rounding of IEEE doubles, the two infinities and the
  sign of zero are outside the model. Addition and subtraction propagate \<open>NaN\<close>.
\<close>

datatype jsnum = Fin rat | NaN

instantiation jsnum :: "{comm_monoid_add, minus}"
begin

definition zero_jsnum :: jsnum where
  "zero_jsnum = Fin 0"

fun plus_jsnum :: "jsnum \<Rightarrow> jsnum \<Rightarrow> jsnum" where
  "plus_jsnum (Fin a) (Fin b) = Fin (a + b)"
| "plus_jsnum _ _ = NaN"

fun minus_jsnum :: "jsnum \<Rightarrow> jsnum \<Rightarrow> jsnum" where
  "minus_jsnum (Fin a) (Fin b) = Fin (a - b)"
| "minus_jsnum _ _ = NaN"

instance
proof
  fix x y z :: jsnum
  show "0 + x = x"
    unfolding zero_jsnum_def by (cases x; simp)
  show "x + y = y + x"
    by (cases x; cases y; simp)
  show "x + y + z = x + (y + z)"
    by (cases x; cases y; cases z; simp)
qed

end

text \<open>\<open>x > 0\<close>, \<open>x === 0\<close> on numbers: every comparison with \<open>NaN\<close> is false.\<close>

fun jsPositive :: "jsnum \<Rightarrow> bool" where
  "jsPositive (Fin r) = (0 < r)"
| "jsPositive NaN = False"

fun jsIsZero :: "jsnum \<Rightarrow> bool" where
  "jsIsZero (Fin r) = (r = 0)"
| "jsIsZero NaN = False"

text \<open>
  The primitive values that reach the code from JSON and from spreadsheet cells.
\<close>

datatype jsval = JUndefined | JNull | JBool bool | JNum jsnum | JStr string

text \<open>Truthiness, as \<open>||\<close>, \<open>&&\<close> and \<open>!\<close> read it.\<close>

fun truthy :: "jsval \<Rightarrow> bool" where
  "truthy JUndefined = False"
| "truthy JNull = False"
| "truthy (JBool b) = b"
| "truthy (JNum (Fin r)) = (r \<noteq> 0)"
| "truthy (JNum NaN) = False"
| "truthy (JStr s) = (s \<noteq> [])"

text \<open>
  The built-ins of the JavaScript runtime that the code calls and that are not
  reproduced here are parameters: every general theorem holds for all of them.
  \<^item> \<open>stringToNumber s\<close> is \<open>Number(s)\<close> for a string \<open>s\<close>;
  \<^item> \<open>numberToString n\<close> is \<open>String(n)\<close> for a number \<open>n\<close>;
  \<^item> \<open>dateTime s\<close> is \<open>new Date(s).getTime()\<close> (\<open>NaN\<close> for an invalid date);
  \<^item> \<open>monthOf s\<close> and \<open>yearOf s\<close> are the strings that lines 645-649 of the reports
    page build from \<open>new Date(s)\<close>: \<open>`${year}-${month.toString().padStart(2, '0')}`\<close>
    and \<open>year.toString()\<close>, in local time;
  \<^item> \<open>localeCompare a b\<close> is \<open>a.localeCompare(b)\<close>;
  \<^item> \<open>serialToIso v adjust\<close> is the ISO day of the spreadsheet serial \<open>v\<close> counted from
    1899-12-30, with one day taken off when \<open>adjust\<close> holds;
  \<^item> \<open>parseDate v\<close> is \<open>new Date(v)\<close> rendered as an ISO day, \<open>None\<close> when invalid.
\<close>

record host =
  stringToNumber :: "string \<Rightarrow> jsnum"
  numberToString :: "jsnum \<Rightarrow> string"
  dateTime :: "string \<Rightarrow> jsnum"
  monthOf :: "string \<Rightarrow> string"
  yearOf :: "string \<Rightarrow> string"
  localeCompare :: "string \<Rightarrow> string \<Rightarrow> jsnum"
  serialToIso :: "rat \<Rightarrow> bool \<Rightarrow> string"
  parseDate :: "jsval \<Rightarrow> string option"

text \<open>
  What one call draws from the clock and the random generator:
  \<open>Math.random().toString(36)\<close>, \<open>new Date().toISOString().split('T')[0]\<close> and
  the digits of \<open>Date.now()\<close>.
\<close>

record draw =
  random36 :: string
  today :: string
  nowMillis :: string

text \<open>\<open>s.substr(start, len)\<close> for non-negative arguments.\<close>

definition substr :: "nat \<Rightarrow> nat \<Rightarrow> string \<Rightarrow> string" where
  "substr start len s = take len (drop start s)"

text \<open>\<open>Number(v)\<close> and \<open>Number(v) || 0\<close>.\<close>

fun toNumber :: "host \<Rightarrow> jsval \<Rightarrow> jsnum" where
  "toNumber h JUndefined = NaN"
| "toNumber h JNull = Fin 0"
| "toNumber h (JBool b) = Fin (if b then 1 else 0)"
| "toNumber h (JNum n) = n"
| "toNumber h (JStr s) = stringToNumber h s"

definition numberOrZero :: "host \<Rightarrow> jsval \<Rightarrow> jsnum" where
  "numberOrZero h v = (case toNumber h v of Fin r \<Rightarrow> Fin r | NaN \<Rightarrow> Fin 0)"

section \<open>Transactions and accounts\<close>

text \<open>
  \<open>TransactionItem\<close> of the types module. The fields \<open>penerimaan\<close> (income) and
  \<open>pengeluaran\<close> (expense) are declared \<open>Record<string, number>\<close>, but the normalizer
  also accepts a bare string there and coerces every stored value, so a field is
  either a primitive or an object, given by its entries in \<open>Object.entries\<close> order.
  The string fields read through \<open>||\<close> only, so a missing one is the empty string.
\<close>

datatype field = Scalar jsval | Dict "(string \<times> jsval) list"

record transaction =
  tx_id :: string
  tanggal :: string
  uraian :: string
  penerimaan :: field
  pengeluaran :: field
  jumlah :: jsval
  saldo_berjalan :: jsval

text \<open>\<open>obj[key] = value\<close>: an existing property keeps its place, a new one goes last.\<close>

fun assign :: "string \<Rightarrow> 'v \<Rightarrow> (string \<times> 'v) list \<Rightarrow> (string \<times> 'v) list" where
  "assign k v [] = [(k, v)]"
| "assign k v (p # ps) = (if fst p = k then (k, v) # ps else p # assign k v ps)"

text \<open>
  \<open>Object.values(f || {})\<close>: the values of an object; the one-character strings of a
  non-empty string; nothing for any other primitive.
\<close>

fun objectValues :: "field \<Rightarrow> jsval list" where
  "objectValues (Dict m) = map snd m"
| "objectValues (Scalar (JStr s)) = map (\<lambda>c. JStr [c]) s"
| "objectValues (Scalar _) = []"

text \<open>\<open>vals.reduce((sum, val) => sum + (Number(val) || 0), 0)\<close>\<close>

definition sumValues :: "host \<Rightarrow> jsval list \<Rightarrow> jsnum" where
  "sumValues h vals = foldl (\<lambda>sum val. sum + numberOrZero h val) 0 vals"

text \<open>\<open>calculateAccountBalance\<close> (AppContext.tsx, lines 41-53).\<close>

definition calculateAccountBalance :: "host \<Rightarrow> transaction list \<Rightarrow> jsnum" where
  "calculateAccountBalance h txs =
     foldl (\<lambda>balance tx.
        let income = sumValues h (objectValues (penerimaan tx));
            expense = sumValues h (objectValues (pengeluaran tx))
        in balance + (income - expense)) 0 txs"

text \<open>
  The two "Handle penerimaan / pengeluaran" blocks of \<open>normalizeTransaction\<close>
  (lines 67-83): a string is wrapped under the default category, an object is copied
  entry by entry with every value coerced, anything else leaves the empty object.
\<close>

fun normalizeField :: "host \<Rightarrow> string \<Rightarrow> field \<Rightarrow> field" where
  "normalizeField h dflt (Scalar (JStr s)) = Dict [(dflt, JNum (numberOrZero h (JStr s)))]"
| "normalizeField h dflt (Dict m) =
     Dict (foldl (\<lambda>acc (key, val). assign key (JNum (numberOrZero h val)) acc) [] m)"
| "normalizeField h dflt (Scalar _) = Dict []"

text \<open>\<open>normalizeTransaction\<close> (AppContext.tsx, lines 56-97).\<close>

definition normalizeTransaction :: "host \<Rightarrow> draw \<Rightarrow> transaction \<Rightarrow> transaction" where
  "normalizeTransaction h d tx =
     (let normalizedTx =
        \<lparr> tx_id = (if tx_id tx \<noteq> [] then tx_id tx else ''tx-'' @ substr 2 9 (random36 d)),
          tanggal = (if tanggal tx \<noteq> [] then tanggal tx else today d),
          uraian = uraian tx,
          penerimaan = normalizeField h ''Penerimaan'' (penerimaan tx),
          pengeluaran = normalizeField h ''Pengeluaran'' (pengeluaran tx),
          jumlah = JNum 0,
          saldo_berjalan = JNum 0 \<rparr>;
        penerimaanTotal = sumValues h (objectValues (penerimaan normalizedTx));
        pengeluaranTotal = sumValues h (objectValues (pengeluaran normalizedTx))
      in normalizedTx\<lparr> jumlah := JNum (penerimaanTotal - pengeluaranTotal) \<rparr>)"

text \<open>
  \<open>AccountBase\<close>, the type of the accounts the store holds. Objects coming from the
  upload page carry further properties (\<open>id\<close>, \<open>currency\<close>, ...) that the store's type
  does not declare and that no reader of the store uses.
\<close>

record account =
  name :: string
  transactions :: "transaction list"
  balance :: jsnum

text \<open>
  \<open>createAccount\<close> (lines 100-104). Each call of the normalizer has its own draw; the
  balance is computed from the transactions as given, before normalization.
\<close>

definition createAccount :: "host \<Rightarrow> (nat \<Rightarrow> draw) \<Rightarrow> string \<Rightarrow> transaction list \<Rightarrow> account" where
  "createAccount h ds nm txs =
     \<lparr> name = nm,
       transactions = map (\<lambda>(i, tx). normalizeTransaction h (ds i) tx) (enumerate 0 txs),
       balance = calculateAccountBalance h txs \<rparr>"

section \<open>The store\<close>

record appState =
  accounts :: "account list"
  currentAccount :: "string option"
  isLoading :: bool
  error :: "string option"
  isBackendReady :: bool

datatype appAction =
    SET_ACCOUNTS "account list"
  | SET_CURRENT_ACCOUNT "string option"
  | UPDATE_ACCOUNT string "transaction list"
  | ADD_ACCOUNT account
  | SET_LOADING bool
  | SET_ERROR "string option"
  | SET_BACKEND_READY bool

definition initialState :: appState where
  "initialState = \<lparr> accounts = [], currentAccount = None, isLoading = False,
                    error = None, isBackendReady = True \<rparr>"

text \<open>Decimal digits of a natural number, for \<open>`Akun Baru ${n}`\<close> and the row index.\<close>

fun showNat :: "nat \<Rightarrow> string" where
  "showNat n = (if n < 10 then [''0123456789'' ! n] else showNat (n div 10) @ [''0123456789'' ! (n mod 10)])"

declare showNat.simps [simp del]

text \<open>\<open>x || y\<close> on \<open>string | null\<close>.\<close>

fun orElse :: "string option \<Rightarrow> string option \<Rightarrow> string option" where
  "orElse (Some s) y = (if s \<noteq> [] then Some s else y)"
| "orElse None y = y"

text \<open>\<open>action.payload.name || `Akun Baru ${state.accounts.length + 1}`\<close> (line 141).\<close>

definition newAccountName :: "appState \<Rightarrow> account \<Rightarrow> string" where
  "newAccountName state payload =
     (if name payload \<noteq> [] then name payload
      else ''Akun Baru '' @ showNat (length (accounts state) + 1))"

text \<open>
  \<open>appReducer\<close> (lines 107-171). The draws are indexed by the position of the account
  and of the transaction that the normalizer is called on.
\<close>

fun appReducer :: "host \<Rightarrow> (nat \<Rightarrow> nat \<Rightarrow> draw) \<Rightarrow> appState \<Rightarrow> appAction \<Rightarrow> appState" where
  "appReducer h ds state (SET_ACCOUNTS payload) =
     (let accs = map (\<lambda>account. account\<lparr> balance := calculateAccountBalance h (transactions account) \<rparr>) payload
      in state\<lparr> accounts := accs,
                currentAccount := orElse (currentAccount state)
                   (case accs of [] \<Rightarrow> None | a # _ \<Rightarrow> orElse (Some (name a)) None),
                isLoading := False,
                error := None \<rparr>)"
| "appReducer h ds state (SET_CURRENT_ACCOUNT payload) = state\<lparr> currentAccount := payload \<rparr>"
| "appReducer h ds state (UPDATE_ACCOUNT accountName txs) =
     (let updatedAccounts = map (\<lambda>(i, account).
            if name account = accountName then createAccount h (ds i) accountName txs else account)
          (enumerate 0 (accounts state))
      in state\<lparr> accounts := updatedAccounts \<rparr>)"
| "appReducer h ds state (ADD_ACCOUNT payload) =
     (let accountName = newAccountName state payload
      in if list_ex (\<lambda>acc. name acc = accountName) (accounts state) then state
         else let newAccount = createAccount h (ds 0) accountName (transactions payload)
              in state\<lparr> accounts := accounts state @ [newAccount],
                        currentAccount := Some (name newAccount) \<rparr>)"
| "appReducer h ds state (SET_LOADING payload) = state\<lparr> isLoading := payload \<rparr>"
| "appReducer h ds state (SET_ERROR payload) = state\<lparr> error := payload, isLoading := False \<rparr>"
| "appReducer h ds state (SET_BACKEND_READY payload) = state\<lparr> isBackendReady := payload \<rparr>"


section \<open>The upload page: reading a workbook\<close>

text \<open>
  String helpers. \<open>toLowerCase\<close> and \<open>trim\<close> are modelled on ASCII; the words
  the parser compares with (\<open>tanggal\<close>, \<open>uraian\<close>, \<open>jumlah\<close> and the two
  prefixes) are ASCII, and a regular expression with flag \<open>i\<close> and without flag
  \<open>u\<close> never lets a non-ASCII character match an ASCII one.
\<close>

definition lowerChar :: "char \<Rightarrow> char" where
  "lowerChar c =
     (case map_of (zip ''ABCDEFGHIJKLMNOPQRSTUVWXYZ'' ''abcdefghijklmnopqrstuvwxyz'') c of
        Some l \<Rightarrow> l
      | None \<Rightarrow> c)"

definition toLowerCase :: "string \<Rightarrow> string" where
  "toLowerCase s = map lowerChar s"

definition isSpace :: "char \<Rightarrow> bool" where
  "isSpace c = ((of_char c :: nat) \<in> {9, 10, 11, 12, 13, 32})"

definition trim :: "string \<Rightarrow> string" where
  "trim s = rev (dropWhile isSpace (rev (dropWhile isSpace s)))"

definition startsWith :: "string \<Rightarrow> string \<Rightarrow> bool" where
  "startsWith p s = (take (length p) s = p)"

definition isDigit :: "char \<Rightarrow> bool" where
  "isDigit c = (let n = (of_char c :: nat) in 48 \<le> n \<and> n \<le> 57)"

text \<open>\<open>String(v)\<close>\<close>

fun toString :: "host \<Rightarrow> jsval \<Rightarrow> string" where
  "toString h JUndefined = ''undefined''"
| "toString h JNull = ''null''"
| "toString h (JBool b) = (if b then ''true'' else ''false'')"
| "toString h (JNum n) = numberToString h n"
| "toString h (JStr s) = s"

text \<open>\<open>xs.findIndex(P)\<close>, with \<open>None\<close> for \<open>-1\<close>.\<close>

fun findIndex :: "('a \<Rightarrow> bool) \<Rightarrow> 'a list \<Rightarrow> nat option" where
  "findIndex P [] = None"
| "findIndex P (x # xs) = (if P x then Some 0 else map_option Suc (findIndex P xs))"

text \<open>\<open>String(h || '').trim()\<close> for a header cell (line 176).\<close>

definition headerText :: "host \<Rightarrow> jsval \<Rightarrow> string" where
  "headerText h c = trim (toString h (if truthy c then c else JStr []))"

text \<open>The columns whose lower-cased header starts with a prefix (lines 184-190).\<close>

definition prefixCols :: "string \<Rightarrow> string list \<Rightarrow> nat list" where
  "prefixCols prefix headers =
     map fst (filter (\<lambda>(i, hdr). startsWith prefix (toLowerCase hdr)) (enumerate 0 headers))"

text \<open>\<open>s.replace(/^prefix/i, '')\<close>\<close>

definition stripPrefix :: "string \<Rightarrow> string \<Rightarrow> string" where
  "stripPrefix prefix s = (if startsWith prefix (toLowerCase s) then drop (length prefix) s else s)"

text \<open>\<open>row[index]\<close>: \<open>undefined\<close> past the end.\<close>

definition cellAt :: "jsval list \<Rightarrow> nat \<Rightarrow> jsval" where
  "cellAt row index = (if index < length row then row ! index else JUndefined)"

text \<open>The two row accessors (lines 207-219); the index is never negative where they are called.\<close>

definition getStringValue :: "host \<Rightarrow> jsval list \<Rightarrow> nat \<Rightarrow> string" where
  "getStringValue h row index =
     (if index \<ge> length row then []
      else let v = row ! index
           in if v \<noteq> JNull \<and> v \<noteq> JUndefined then trim (toString h v) else [])"

definition getNumberValue :: "host \<Rightarrow> jsval list \<Rightarrow> nat \<Rightarrow> jsnum" where
  "getNumberValue h row index =
     (if index \<ge> length row then 0
      else let v = row ! index
           in if v = JNull \<or> v = JUndefined \<or> v = JStr [] then 0
              else (case toNumber h v of NaN \<Rightarrow> 0 | Fin r \<Rightarrow> Fin r))"

text \<open>The category loops (lines 222-239): only values above zero are stored.\<close>

definition categoryValues :: "host \<Rightarrow> string \<Rightarrow> string list \<Rightarrow> jsval list \<Rightarrow> nat list \<Rightarrow> (string \<times> jsval) list" where
  "categoryValues h prefix headers row cols =
     foldl (\<lambda>m col.
        let v = getNumberValue h row col
        in if jsPositive v then assign (stripPrefix prefix (headers ! col)) (JNum v) m else m) [] cols"

text \<open>\<open>vals.reduce((sum, val) => sum + val, 0)\<close> over stored numbers (lines 242-243).\<close>

fun numberOf :: "jsval \<Rightarrow> jsnum" where
  "numberOf (JNum n) = n"
| "numberOf _ = NaN"

definition sumPlain :: "jsval list \<Rightarrow> jsnum" where
  "sumPlain vals = foldl (\<lambda>sum val. sum + numberOf val) 0 vals"

text \<open>\<open>/^\d{4}-\d{2}-\d{2}$/.test(s)\<close>\<close>

definition isoPattern :: "string \<Rightarrow> bool" where
  "isoPattern s = (length s = 10 \<and> s ! 4 = CHR ''-'' \<and> s ! 7 = CHR ''-'' \<and>
                   list_all (\<lambda>i. isDigit (s ! i)) [0, 1, 2, 3, 5, 6, 8, 9])"

text \<open>\<open>parseExcelDate\<close> (lines 258-289).\<close>

definition parseExcelDate :: "host \<Rightarrow> draw \<Rightarrow> jsval \<Rightarrow> string" where
  "parseExcelDate h d v =
     (if \<not> truthy v \<and> v \<noteq> JNum (Fin 0) then today d
      else case v of
          JStr s \<Rightarrow> (if isoPattern s then s
                     else (case parseDate h v of Some day \<Rightarrow> day | None \<Rightarrow> today d))
        | JNum (Fin r) \<Rightarrow> (if 0 < r then serialToIso h r (60 \<le> r)
                           else (case parseDate h v of Some day \<Rightarrow> day | None \<Rightarrow> today d))
        | _ \<Rightarrow> (case parseDate h v of Some day \<Rightarrow> day | None \<Rightarrow> today d))"

text \<open>
  One data row (the body of the loop of lines 202-306): the transaction it pushes and
  the running balance it leaves. \<open>jumlah\<close> is the cell of the \<open>jumlah\<close> column when that
  cell is a number, else 0; the running balance is reset to that cell when it is not 0.
\<close>

definition parseRow :: "host \<Rightarrow> draw \<Rightarrow> string list \<Rightarrow> nat \<Rightarrow> nat \<Rightarrow> nat \<Rightarrow> nat list \<Rightarrow> nat list
     \<Rightarrow> nat \<Rightarrow> jsval list \<Rightarrow> jsnum \<Rightarrow> transaction \<times> jsnum" where
  "parseRow h d headers dateCol descCol jumlahCol penerimaanCols pengeluaranCols i row runningBalance =
     (let pen = categoryValues h ''penerimaan_'' headers row penerimaanCols;
          peng = categoryValues h ''pengeluaran_'' headers row pengeluaranCols;
          totalPenerimaan = sumPlain (map snd pen);
          totalPengeluaran = sumPlain (map snd peng);
          amount = (case cellAt row jumlahCol of JNum n \<Rightarrow> JNum n | _ \<Rightarrow> JNum 0);
          saldo = getNumberValue h row jumlahCol;
          rb = (if jsIsZero saldo then runningBalance + (totalPenerimaan - totalPengeluaran) else saldo);
          rawDateValue = (if dateCol < length row then row ! dateCol else JNull);
          desc = getStringValue h row descCol
      in (\<lparr> tx_id = ''tx-'' @ nowMillis d @ ''-'' @ showNat i @ ''-'' @ substr 2 4 (random36 d),
            tanggal = parseExcelDate h d rawDateValue,
            uraian = (if desc \<noteq> [] then desc else ''Transaksi Tanpa Keterangan''),
            penerimaan = Dict pen,
            pengeluaran = Dict peng,
            jumlah = amount,
            saldo_berjalan = JNum rb \<rparr>, rb))"

text \<open>The loop over the data rows; empty rows are skipped.\<close>

fun parseRows :: "host \<Rightarrow> (nat \<Rightarrow> draw) \<Rightarrow> string list \<Rightarrow> nat \<Rightarrow> nat \<Rightarrow> nat \<Rightarrow> nat list \<Rightarrow> nat list
     \<Rightarrow> nat \<Rightarrow> jsval list list \<Rightarrow> jsnum \<Rightarrow> transaction list \<times> jsnum" where
  "parseRows h ds headers dateCol descCol jumlahCol pens pengs i [] rb = ([], rb)"
| "parseRows h ds headers dateCol descCol jumlahCol pens pengs i (row # rows) rb =
     (if row = [] then parseRows h ds headers dateCol descCol jumlahCol pens pengs (Suc i) rows rb
      else let (tx, rb') = parseRow h (ds i) headers dateCol descCol jumlahCol pens pengs i row rb;
               (txs, rb'') = parseRows h ds headers dateCol descCol jumlahCol pens pengs (Suc i) rows rb'
           in (tx # txs, rb''))"

text \<open>
  \<open>AccountData\<close> as the upload page builds it; the constant properties
  (\<open>currency\<close>, \<open>isActive\<close>, the two time stamps) are left out.
\<close>

record accountData =
  acc_id :: string
  acc_name :: string
  acc_balance :: jsnum
  acc_transactions :: "transaction list"

text \<open>\<open>s.replace(/\s+/g, '-')\<close>\<close>

fun dashSpacesFrom :: "bool \<Rightarrow> string \<Rightarrow> string" where
  "dashSpacesFrom inRun [] = []"
| "dashSpacesFrom inRun (c # cs) =
     (if isSpace c then (if inRun then dashSpacesFrom True cs else CHR ''-'' # dashSpacesFrom True cs)
      else c # dashSpacesFrom False cs)"

definition dashSpaces :: "string \<Rightarrow> string" where
  "dashSpaces s = dashSpacesFrom False s"

text \<open>
  One sheet (lines 169-321): \<open>None\<close> when the sheet is skipped (no rows, a required
  column missing, or no transaction).
\<close>

definition parseSheet :: "host \<Rightarrow> (nat \<Rightarrow> draw) \<Rightarrow> string \<times> jsval list list \<Rightarrow> accountData option" where
  "parseSheet h ds sheet =
     (case sheet of (sheetName, jsonData) \<Rightarrow>
      (case jsonData of
         [] \<Rightarrow> None
       | headerRow # dataRows \<Rightarrow>
          (let headers = map (headerText h) headerRow;
               pens = prefixCols ''penerimaan_'' headers;
               pengs = prefixCols ''pengeluaran_'' headers
           in case (findIndex (\<lambda>hdr. toLowerCase hdr = ''tanggal'') headers,
                    findIndex (\<lambda>hdr. toLowerCase hdr = ''uraian'') headers,
                    findIndex (\<lambda>hdr. toLowerCase hdr = ''jumlah'') headers) of
                (Some dateCol, Some descCol, Some jumlahCol) \<Rightarrow>
                   (let (txs, rb) = parseRows h ds headers dateCol descCol jumlahCol pens pengs 1 dataRows 0
                    in if txs = [] then None
                       else Some \<lparr> acc_id = ''acc-'' @ nowMillis (ds 0) @ ''-'' @ toLowerCase (dashSpaces sheetName),
                                   acc_name = sheetName,
                                   acc_balance = rb,
                                   acc_transactions = txs \<rparr>)
              | _ \<Rightarrow> None)))"

text \<open>
  \<open>handleFileUpload\<close> (lines 146-338) on the workbook that the spreadsheet library
  read: its sheets in order, each with its rows. Both errors are caught inside the
  function, which then returns the empty list; \<open>Inl\<close> carries the message it dispatches.
\<close>

definition handleFileUpload :: "host \<Rightarrow> (nat \<Rightarrow> nat \<Rightarrow> draw) \<Rightarrow> (string \<times> jsval list list) list
     \<Rightarrow> string + accountData list" where
  "handleFileUpload h ds workbook =
     (if workbook = [] then Inl ''File does not contain any sheets''
      else let accs = List.map_filter (\<lambda>(k, sheet). parseSheet h (ds k) sheet) (enumerate 0 workbook)
           in if accs = [] then Inl ''Tidak ada data transaksi yang valid dalam file'' else Inr accs)"

text \<open>
  The transaction mapping of \<open>processAndUpdateAccounts\<close> (lines 77-101): a supplied
  non-zero \<open>jumlah\<close> is kept, a zero or absent one is computed from the two maps.
\<close>

fun defaultField :: "field \<Rightarrow> field" where
  "defaultField (Scalar (JStr s)) = Dict []"
| "defaultField (Scalar v) = (if truthy v then Scalar v else Dict [])"
| "defaultField (Dict m) = Dict m"

definition mapUploadedTx :: "host \<Rightarrow> draw \<Rightarrow> transaction \<Rightarrow> transaction" where
  "mapUploadedTx h d tx =
     (let defaultPenerimaan = defaultField (penerimaan tx);
          defaultPengeluaran = defaultField (pengeluaran tx);
          jml0 = (case jumlah tx of JNum n \<Rightarrow> n | _ \<Rightarrow> 0);
          jml = (if jsIsZero jml0
                 then sumValues h (objectValues defaultPenerimaan) - sumValues h (objectValues defaultPengeluaran)
                 else jml0)
      in tx\<lparr> tx_id := (if tx_id tx \<noteq> [] then tx_id tx
                        else ''tx-'' @ nowMillis d @ ''-'' @ substr 2 5 (random36 d)),
             tanggal := (if tanggal tx \<noteq> [] then tanggal tx else today d),
             penerimaan := defaultPenerimaan,
             pengeluaran := defaultPengeluaran,
             jumlah := JNum jml \<rparr>)"

definition mapUploadedAccount :: "host \<Rightarrow> (nat \<Rightarrow> draw) \<Rightarrow> accountData \<Rightarrow> accountData" where
  "mapUploadedAccount h ds a =
     \<lparr> acc_id = (if acc_id a \<noteq> [] then acc_id a else ''acc-'' @ substr 2 9 (random36 (ds 0))),
       acc_name = (if acc_name a \<noteq> [] then acc_name a else ''Akun Tanpa Nama''),
       acc_balance = acc_balance a,
       acc_transactions = map (\<lambda>(i, tx). mapUploadedTx h (ds (Suc i)) tx) (enumerate 0 (acc_transactions a)) \<rparr>"

text \<open>An \<open>AccountData\<close> object read at the store's type.\<close>

definition asAccountBase :: "accountData \<Rightarrow> account" where
  "asAccountBase a = \<lparr> name = acc_name a, transactions = acc_transactions a, balance = acc_balance a \<rparr>"

text \<open>
  \<open>processAndUpdateAccounts\<close> (lines 70-118): the actions it dispatches, given the
  store state its closure holds. The second action carries the \<open>id\<close> of the first
  account.
\<close>

definition processAndUpdateAccounts :: "host \<Rightarrow> (nat \<Rightarrow> nat \<Rightarrow> draw) \<Rightarrow> appState \<Rightarrow> accountData list
     \<Rightarrow> bool \<times> appAction list" where
  "processAndUpdateAccounts h ds state accs =
     (if accs = [] then (False, [])
      else let mappedAccounts = map (\<lambda>(k, a). mapUploadedAccount h (ds k) a) (enumerate 0 accs)
           in (True,
               SET_ACCOUNTS (map asAccountBase mappedAccounts) #
               (if orElse (currentAccount state) None = None
                then [SET_CURRENT_ACCOUNT (Some (acc_id (hd mappedAccounts)))] else [])))"

text \<open>
  \<open>onFileChange\<close> after validation (lines 357-383): every action dispatched while one
  workbook is processed, in order.
\<close>

definition uploadActions :: "host \<Rightarrow> (nat \<Rightarrow> nat \<Rightarrow> draw) \<Rightarrow> appState \<Rightarrow> (string \<times> jsval list list) list
     \<Rightarrow> appAction list" where
  "uploadActions h ds state workbook =
     (case handleFileUpload h ds workbook of
        Inl msg \<Rightarrow> [SET_LOADING True, SET_ERROR (Some msg), SET_LOADING False]
      | Inr accs \<Rightarrow> [SET_LOADING True, SET_LOADING False] @ snd (processAndUpdateAccounts h ds state accs))"

definition dispatchAll :: "host \<Rightarrow> (nat \<Rightarrow> nat \<Rightarrow> draw) \<Rightarrow> appState \<Rightarrow> appAction list \<Rightarrow> appState" where
  "dispatchAll h ds state acts = foldl (appReducer h ds) state acts"


section \<open>The reports page\<close>

text \<open>
  \<open>xs.sort(cmp)\<close>: the sort is stable, and a comparator result that is \<open>NaN\<close>
  counts as 0. With a comparator that is a total preorder on the elements every stable
  sort returns the same list, the one this insertion sort returns; with any other
  comparator the order is left to the implementation, and the model fixes one.
\<close>

fun notAfter :: "jsnum \<Rightarrow> bool" where
  "notAfter (Fin r) = (r \<le> 0)"
| "notAfter NaN = True"

fun insertWith :: "('a \<Rightarrow> 'a \<Rightarrow> jsnum) \<Rightarrow> 'a \<Rightarrow> 'a list \<Rightarrow> 'a list" where
  "insertWith cmp x [] = [x]"
| "insertWith cmp x (y # ys) = (if notAfter (cmp x y) then x # y # ys else y # insertWith cmp x ys)"

definition sortWith :: "('a \<Rightarrow> 'a \<Rightarrow> jsnum) \<Rightarrow> 'a list \<Rightarrow> 'a list" where
  "sortWith cmp xs = foldr (insertWith cmp) xs []"

record balanceReport =
  br_date :: string
  br_income :: jsnum
  br_expense :: jsnum
  br_balance :: jsnum
  br_runningBalance :: jsnum

record balanceByPeriod =
  bp_period :: string
  bp_income :: jsnum
  bp_expense :: jsnum
  bp_balance :: jsnum

text \<open>\<open>vals.reduce((sum, val) => sum + (typeof val === 'number' ? val : 0), 0)\<close>\<close>

fun numberOnly :: "jsval \<Rightarrow> jsnum" where
  "numberOnly (JNum n) = n"
| "numberOnly _ = 0"

definition sumNumbers :: "jsval list \<Rightarrow> jsnum" where
  "sumNumbers vals = foldl (\<lambda>sum val. sum + numberOnly val) 0 vals"

text \<open>
  \<open>if (!data[k]) data[k] = { income: 0, expense: 0 }; data[k].income += income;
  data[k].expense += expense\<close> (lines 673-684).
\<close>

definition addToBucket :: "string \<Rightarrow> jsnum \<Rightarrow> jsnum \<Rightarrow> (string \<times> jsnum \<times> jsnum) list
     \<Rightarrow> (string \<times> jsnum \<times> jsnum) list" where
  "addToBucket k inc ex data =
     (case map_of data k of
        None \<Rightarrow> assign k (0 + inc, 0 + ex) data
      | Some (i, e) \<Rightarrow> assign k (i + inc, e + ex) data)"

text \<open>The variables that the \<open>forEach\<close> of lines 644-685 updates.\<close>

record reportAcc =
  runningBalance :: jsnum
  runningBalanceData :: "balanceReport list"
  monthlyData :: "(string \<times> jsnum \<times> jsnum) list"
  yearlyData :: "(string \<times> jsnum \<times> jsnum) list"

definition reportStep :: "host \<Rightarrow> reportAcc \<Rightarrow> transaction \<Rightarrow> reportAcc" where
  "reportStep h acc t =
     (let income = sumNumbers (objectValues (penerimaan t));
          expense = sumNumbers (objectValues (pengeluaran t));
          bal = income - expense;
          rb = runningBalance acc + bal
      in \<lparr> runningBalance = rb,
           runningBalanceData = runningBalanceData acc @
              [\<lparr> br_date = tanggal t, br_income = income, br_expense = expense,
                 br_balance = bal, br_runningBalance = rb \<rparr>],
           monthlyData = addToBucket (monthOf h (tanggal t)) income expense (monthlyData acc),
           yearlyData = addToBucket (yearOf h (tanggal t)) income expense (yearlyData acc) \<rparr>)"

text \<open>
  \<open>Object.entries(data).sort(([a], [b]) => a.localeCompare(b)).map(...)\<close> (lines
  688-704). The entries are taken in the order the keys were first assigned; an
  object lists keys that look like integers (the years) in numeric order instead,
  which gives the same sorted list whenever the comparator tells distinct keys apart.
\<close>

definition periodReports :: "host \<Rightarrow> (string \<times> jsnum \<times> jsnum) list \<Rightarrow> balanceByPeriod list" where
  "periodReports h data =
     map (\<lambda>(p, inc, ex). \<lparr> bp_period = p, bp_income = inc, bp_expense = ex, bp_balance = inc - ex \<rparr>)
         (sortWith (\<lambda>a b. localeCompare h (fst a) (fst b)) data)"

text \<open>
  \<open>Object.entries(f)\<close>, which throws on \<open>undefined\<close> and \<open>null\<close>, and the category
  totals of lines 729-743.
\<close>

fun objectEntries :: "field \<Rightarrow> (string \<times> jsval) list option" where
  "objectEntries (Dict m) = Some m"
| "objectEntries (Scalar JUndefined) = None"
| "objectEntries (Scalar JNull) = None"
| "objectEntries (Scalar (JStr s)) = Some (map (\<lambda>(i, c). (showNat i, JStr [c])) (enumerate 0 s))"
| "objectEntries (Scalar _) = Some []"

definition addCategory :: "(string \<times> jsnum) list \<Rightarrow> string \<times> jsval \<Rightarrow> (string \<times> jsnum) list" where
  "addCategory m entry =
     (case entry of (category, amount) \<Rightarrow>
        let old = (case map_of m category of Some v \<Rightarrow> (if truthy (JNum v) then v else 0) | None \<Rightarrow> 0)
        in assign category (old + numberOnly amount) m)"

definition categoryTotals :: "(transaction \<Rightarrow> field) \<Rightarrow> transaction list \<Rightarrow> (string \<times> jsnum) list" where
  "categoryTotals fld txs =
     foldl (\<lambda>m t. foldl addCategory m (case objectEntries (fld t) of Some es \<Rightarrow> es | None \<Rightarrow> [])) [] txs"

text \<open>
  The report. The three percentage figures of \<open>cash_flow\<close> and the empty
  \<open>balance_sheet\<close> are left out; \<open>net_income\<close> and \<open>net_cash_flow\<close> are the same sum.
\<close>

record reportData =
  monthly :: "balanceByPeriod list"
  yearly :: "balanceByPeriod list"
  running :: "balanceReport list"
  income_categories :: "(string \<times> jsnum) list"
  expense_categories :: "(string \<times> jsnum) list"
  net_income :: jsnum
  net_cash_flow :: jsnum

datatype jsError = TypeError

definition sortedTransactions :: "host \<Rightarrow> transaction list \<Rightarrow> transaction list" where
  "sortedTransactions h txs = sortWith (\<lambda>a b. dateTime h (tanggal a) - dateTime h (tanggal b)) txs"

definition sumBalances :: "balanceByPeriod list \<Rightarrow> jsnum" where
  "sumBalances rs = foldl (\<lambda>sum r. sum + bp_balance r) 0 rs"

text \<open>
  \<open>generateReports\<close> (lines 630-746): \<open>Inr None\<close> is the \<open>null\<close> returned for no
  account, \<open>Inl TypeError\<close> the exception of \<open>Object.entries\<close>.
\<close>

definition generateReports :: "host \<Rightarrow> account option \<Rightarrow> jsError + reportData option" where
  "generateReports h selected =
     (case selected of
        None \<Rightarrow> Inr None
      | Some acct \<Rightarrow>
         (let acc = foldl (reportStep h)
                      \<lparr> runningBalance = 0, runningBalanceData = [], monthlyData = [], yearlyData = [] \<rparr>
                      (sortedTransactions h (transactions acct));
              monthlyReports = periodReports h (monthlyData acc);
              yearlyReports = periodReports h (yearlyData acc)
          in if list_ex (\<lambda>t. objectEntries (penerimaan t) = None \<or> objectEntries (pengeluaran t) = None)
                  (transactions acct)
             then Inl TypeError
             else Inr (Some \<lparr> monthly = monthlyReports,
                               yearly = yearlyReports,
                               running = runningBalanceData acc,
                               income_categories = categoryTotals penerimaan (transactions acct),
                               expense_categories = categoryTotals pengeluaran (transactions acct),
                               net_income = sumBalances monthlyReports,
                               net_cash_flow = sumBalances monthlyReports \<rparr>)))"

section \<open>The transaction editor\<close>

text \<open>
  \<open>transactionsWithRunningBalance\<close> (TransactionEditor, lines 28-41): a map over the
  list in the order it is stored, with the running total threaded through.
\<close>

fun withRunningBalance :: "host \<Rightarrow> jsnum \<Rightarrow> transaction list \<Rightarrow> transaction list" where
  "withRunningBalance h rb [] = []"
| "withRunningBalance h rb (tx # txs) =
     (let pen = sumValues h (objectValues (penerimaan tx));
          peng = sumValues h (objectValues (pengeluaran tx));
          jml = pen - peng;
          rb' = rb + jml
      in tx\<lparr> jumlah := JNum jml, saldo_berjalan := JNum rb' \<rparr> # withRunningBalance h rb' txs)"

definition transactionsWithRunningBalance :: "host \<Rightarrow> transaction list \<Rightarrow> transaction list" where
  "transactionsWithRunningBalance h txs = withRunningBalance h 0 txs"

section \<open>Notions of the specification\<close>

text \<open>
  A map of finite numbers with distinct category names; the sum of the values of a map;
  the net amount of a transaction; a canonical transaction: identifier and date
  present, both maps numeric, and \<open>jumlah\<close> equal to the net amount.
\<close>

fun isFinite :: "jsval \<Rightarrow> bool" where
  "isFinite (JNum (Fin r)) = True"
| "isFinite _ = False"

fun numericMap :: "field \<Rightarrow> bool" where
  "numericMap (Dict m) = (distinct (map fst m) \<and> list_all (\<lambda>p. isFinite (snd p)) m)"
| "numericMap (Scalar _) = False"

fun valueOf :: "jsval \<Rightarrow> jsnum" where
  "valueOf (JNum n) = n"
| "valueOf _ = NaN"

definition mapTotal :: "field \<Rightarrow> jsnum" where
  "mapTotal f = sum_list (map valueOf (objectValues f))"

definition netAmount :: "transaction \<Rightarrow> jsnum" where
  "netAmount t = mapTotal (penerimaan t) - mapTotal (pengeluaran t)"


text \<open>
  What the report counts for one transaction (lines 652-658); the time stamp of a
  transaction with a valid date; the running totals of a list of amounts, starting
  from \<open>rb\<close>; a transaction with two numeric maps.
\<close>

definition reportIncome :: "transaction \<Rightarrow> jsnum" where
  "reportIncome t = sumNumbers (objectValues (penerimaan t))"

definition reportExpense :: "transaction \<Rightarrow> jsnum" where
  "reportExpense t = sumNumbers (objectValues (pengeluaran t))"

definition reportNet :: "transaction \<Rightarrow> jsnum" where
  "reportNet t = reportIncome t - reportExpense t"

definition validDate :: "host \<Rightarrow> transaction \<Rightarrow> bool" where
  "validDate h t = (case dateTime h (tanggal t) of Fin r \<Rightarrow> True | NaN \<Rightarrow> False)"

definition timeOf :: "host \<Rightarrow> transaction \<Rightarrow> rat" where
  "timeOf h t = (case dateTime h (tanggal t) of Fin r \<Rightarrow> r | NaN \<Rightarrow> 0)"

fun runningSeries :: "jsnum \<Rightarrow> jsnum list \<Rightarrow> jsnum list" where
  "runningSeries rb [] = []"
| "runningSeries rb (a # as) = (rb + a) # runningSeries (rb + a) as"

text \<open>What the editor counts for one transaction (lines 31-33 of the editor).\<close>

definition editorNet :: "host \<Rightarrow> transaction \<Rightarrow> jsnum" where
  "editorNet h t = sumValues h (objectValues (penerimaan t)) - sumValues h (objectValues (pengeluaran t))"

definition numericTx :: "transaction \<Rightarrow> bool" where
  "numericTx t = (numericMap (penerimaan t) \<and> numericMap (pengeluaran t))"



text \<open>The pointer of the store names an account; with distinct names, exactly one.\<close>

definition pointerValid :: "appState \<Rightarrow> bool" where
  "pointerValid s = (case currentAccount s of
                       None \<Rightarrow> True
                     | Some n \<Rightarrow> list_ex (\<lambda>a. name a = n) (accounts s))"

definition oneCurrent :: "appState \<Rightarrow> bool" where
  "oneCurrent s = (accounts s = [] \<or>
                   length (filter (\<lambda>a. Some (name a) = currentAccount s) (accounts s)) = 1)"

text \<open>Distinct account names, and a pointer that is empty only in an empty store.\<close>

definition storeInvariant :: "appState \<Rightarrow> bool" where
  "storeInvariant s = (distinct (map name (accounts s)) \<and>
                       (case currentAccount s of
                          None \<Rightarrow> accounts s = []
                        | Some n \<Rightarrow> list_ex (\<lambda>a. name a = n) (accounts s)))"

section \<open>A host for the examples\<close>

text \<open>
  The closed examples below run on this host. It reads unsigned decimal numerals and
  ISO days (\<open>YYYY-MM-DD\<close>, taken as UTC), prints whole numbers, and compares strings
  by code unit, which is how period keys made of digits and \<open>-\<close> collate. The two
  date conversions of the parser are not used by any example.
\<close>

definition natOfDigits :: "string \<Rightarrow> nat" where
  "natOfDigits s = foldl (\<lambda>n c. 10 * n + (of_char c - 48)) 0 s"

definition decimalNumber :: "string \<Rightarrow> jsnum" where
  "decimalNumber s = (let t = trim s in if list_all isDigit t then Fin (of_nat (natOfDigits t)) else NaN)"

definition daysFromCivil :: "int \<Rightarrow> int \<Rightarrow> int \<Rightarrow> int" where
  "daysFromCivil y m d =
     (let y' = (if m \<le> 2 then y - 1 else y);
          era = y' div 400;
          yoe = y' mod 400;
          doy = (153 * (if 2 < m then m - 3 else m + 9) + 2) div 5 + d - 1;
          doe = yoe * 365 + yoe div 4 - yoe div 100 + doy
      in era * 146097 + doe - 719468)"

definition daysInMonth :: "int \<Rightarrow> int \<Rightarrow> int" where
  "daysInMonth y m =
     (if m = 2
      then (if y mod 400 = 0 then 29 else if y mod 100 = 0 then 28 else if y mod 4 = 0 then 29 else 28)
      else if m \<in> {4, 6, 9, 11} then 30 else 31)"

definition isoParts :: "string \<Rightarrow> (int \<times> int \<times> int) option" where
  "isoParts s =
     (if isoPattern s
      then (let y = int (natOfDigits (take 4 s));
                m = int (natOfDigits (take 2 (drop 5 s)));
                d = int (natOfDigits (drop 8 s))
            in if 1 \<le> m \<and> m \<le> 12 \<and> 1 \<le> d \<and> d \<le> daysInMonth y m then Some (y, m, d) else None)
      else None)"

definition isoTime :: "string \<Rightarrow> jsnum" where
  "isoTime s = (case isoParts s of
                  Some (y, m, d) \<Rightarrow> Fin (of_int (daysFromCivil y m d * 86400000))
                | None \<Rightarrow> NaN)"

definition isoMonth :: "string \<Rightarrow> string" where
  "isoMonth s = (case isoParts s of
                   Some (y, m, d) \<Rightarrow> showNat (nat y) @ ''-'' @ (if m < 10 then ''0'' else []) @ showNat (nat m)
                 | None \<Rightarrow> ''NaN-NaN'')"

definition isoYear :: "string \<Rightarrow> string" where
  "isoYear s = (case isoParts s of Some (y, m, d) \<Rightarrow> showNat (nat y) | None \<Rightarrow> ''NaN'')"

fun codeUnitCompare :: "string \<Rightarrow> string \<Rightarrow> jsnum" where
  "codeUnitCompare [] [] = Fin 0"
| "codeUnitCompare [] (y # ys) = Fin (- 1)"
| "codeUnitCompare (x # xs) [] = Fin 1"
| "codeUnitCompare (x # xs) (y # ys) =
     (if (of_char x :: nat) < of_char y then Fin (- 1)
      else if (of_char y :: nat) < of_char x then Fin 1
      else codeUnitCompare xs ys)"

fun wholeNumberString :: "jsnum \<Rightarrow> string" where
  "wholeNumberString NaN = ''NaN''"
| "wholeNumberString (Fin r) = (if r < 0 then ''-'' else []) @ showNat (nat \<lfloor>\<bar>r\<bar>\<rfloor>)"

definition exampleHost :: host where
  "exampleHost = \<lparr> stringToNumber = decimalNumber,
                    numberToString = wholeNumberString,
                    dateTime = isoTime,
                    monthOf = isoMonth,
                    yearOf = isoYear,
                    localeCompare = codeUnitCompare,
                    serialToIso = (\<lambda>v adjust. []),
                    parseDate = (\<lambda>v. None) \<rparr>"

definition exampleDraw :: draw where
  "exampleDraw = \<lparr> random36 = ''0.4fzyo82mvyr'', today = ''2024-06-01'', nowMillis = ''1717200000000'' \<rparr>"


text \<open>The data of the examples: a salary of 100 and a rent of 30, stored in this order.\<close>

definition salaryTx :: transaction where
  "salaryTx = \<lparr> tx_id = ''tx-1'', tanggal = ''2024-01-10'', uraian = ''Gaji'',
                 penerimaan = Dict [(''gaji'', JNum (Fin 100))], pengeluaran = Dict [],
                 jumlah = JNum (Fin 100), saldo_berjalan = JNum (Fin 100) \<rparr>"

definition rentTx :: transaction where
  "rentTx = \<lparr> tx_id = ''tx-2'', tanggal = ''2024-01-05'', uraian = ''Sewa'',
               penerimaan = Dict [], pengeluaran = Dict [(''sewa'', JNum (Fin 30))],
               jumlah = JNum (Fin (- 30)), saldo_berjalan = JNum (Fin 70) \<rparr>"


definition kas :: account where
  "kas = \<lparr> name = ''Kas'', transactions = [salaryTx, rentTx], balance = Fin 70 \<rparr>"


definition bank :: account where
  "bank = \<lparr> name = ''Bank'', transactions = [], balance = Fin 0 \<rparr>"

definition exampleDraws :: "nat \<Rightarrow> nat \<Rightarrow> draw" where
  "exampleDraws k i = exampleDraw"

text \<open>
  A workbook of one sheet \<open>Kas\<close> with the header row of the specification's scenario
  and one data row, whose \<open>jumlah\<close> cell is the parameter.
\<close>

definition scenarioHeader :: "jsval list" where
  "scenarioHeader = [JStr ''tanggal'', JStr ''uraian'', JStr ''jumlah'',
                     JStr ''penerimaan_gaji'', JStr ''pengeluaran_sewa'']"

definition scenarioRow :: "rat \<Rightarrow> jsval list" where
  "scenarioRow j = [JStr ''2024-01-15'', JStr ''Gaji bulanan'', JNum (Fin j),
                    JNum (Fin 5000000), JNum (Fin 0)]"

definition scenarioWorkbook :: "rat \<Rightarrow> (string \<times> jsval list list) list" where
  "scenarioWorkbook j = [(''Kas'', [scenarioHeader, scenarioRow j])]"

text \<open>The reports of the two example accounts.\<close>

definition kasReport :: reportData where
  "kasReport =
     \<lparr> monthly = [\<lparr> bp_period = ''2024-01'', bp_income = Fin 100, bp_expense = Fin 30, bp_balance = Fin 70 \<rparr>],
       yearly = [\<lparr> bp_period = ''2024'', bp_income = Fin 100, bp_expense = Fin 30, bp_balance = Fin 70 \<rparr>],
       running =
         [\<lparr> br_date = ''2024-01-05'', br_income = Fin 0, br_expense = Fin 30,
            br_balance = Fin (- 30), br_runningBalance = Fin (- 30) \<rparr>,
          \<lparr> br_date = ''2024-01-10'', br_income = Fin 100, br_expense = Fin 0,
            br_balance = Fin 100, br_runningBalance = Fin 70 \<rparr>],
       income_categories = [(''gaji'', Fin 100)],
       expense_categories = [(''sewa'', Fin 30)],
       net_income = Fin 70,
       net_cash_flow = Fin 70 \<rparr>"


section \<open>Properties\<close>

subsection \<open>Sums and maps\<close>


lemma numberOrZero_isFinite: "isFinite (JNum (numberOrZero h v))"
  by (simp add: numberOrZero_def split: jsnum.splits)

lemma numberOrZero_valueOf: "isFinite v \<Longrightarrow> numberOrZero h v = valueOf v"
  by (cases v rule: isFinite.cases) (simp_all add: numberOrZero_def)

lemma foldl_plus_jsnum: "foldl (\<lambda>s v. s + g v) (a::jsnum) vs = a + sum_list (map g vs)"
  by (induction vs arbitrary: a) (simp_all add: add.assoc)

lemma sumValues_sum_list: "sumValues h vs = sum_list (map (numberOrZero h) vs)"
  by (simp add: sumValues_def foldl_plus_jsnum)

lemma sumValues_finite_vals:
  "list_all isFinite vs \<Longrightarrow> sumValues h vs = sum_list (map valueOf vs)"
  unfolding sumValues_sum_list
  by (induction vs) (simp_all add: numberOrZero_valueOf)

lemma keys_assign: "fst ` set (assign k v m) = insert k (fst ` set m)"
  by (induction m) auto

lemma distinct_assign: "distinct (map fst m) \<Longrightarrow> distinct (map fst (assign k v m))"
  by (induction m) (auto simp: keys_assign)


lemma values_assign: "p \<in> set (assign k v m) \<Longrightarrow> snd p = v \<or> p \<in> set m"
  by (induction m) (auto split: if_splits)

lemma copy_distinct:
  "distinct (map fst acc) \<Longrightarrow>
   distinct (map fst (foldl (\<lambda>acc (key, val). assign key (g val) acc) acc m))"
  by (induction m arbitrary: acc) (auto simp: distinct_assign)

lemma copy_values:
  "list_all (\<lambda>p. P (snd p)) acc \<Longrightarrow> (\<And>v. P (g v)) \<Longrightarrow>
   list_all (\<lambda>p. P (snd p)) (foldl (\<lambda>acc (key, val). assign key (g val) acc) acc m)"
proof (induction m arbitrary: acc)
  case Nil then show ?case by simp
next
  case (Cons p m)
  obtain k v where p: "p = (k, v)" by (cases p)
  have "list_all (\<lambda>p. P (snd p)) (assign k (g v) acc)"
    using Cons.prems values_assign [of _ k "g v" acc]
    by (fastforce simp: list_all_iff)
  then show ?case using Cons.IH Cons.prems(2) p by simp
qed


lemma normalizeField_numericMap: "numericMap (normalizeField h dflt f)"
proof (cases f)
  case (Scalar v)
  then show ?thesis by (cases v) (simp_all add: numberOrZero_isFinite)
next
  case (Dict m)
  then show ?thesis
    using copy_distinct [of "[]" "\<lambda>val. JNum (numberOrZero h val)" m]
          copy_values [of "isFinite" "[]" "\<lambda>val. JNum (numberOrZero h val)" m]
    by (simp add: numberOrZero_isFinite)
qed


lemma numericMap_total: "numericMap f \<Longrightarrow> sumValues h (objectValues f) = mapTotal f"
proof (cases f)
  case (Scalar v) assume "numericMap f" then show ?thesis using Scalar by simp
next
  case (Dict m)
  assume "numericMap f"
  then have "list_all isFinite (map snd m)" using Dict by (simp add: list_all_iff)
  then show ?thesis using Dict sumValues_finite_vals [of "map snd m" h]
    by (simp add: mapTotal_def)
qed

lemma numericMap_total_finite: "numericMap f \<Longrightarrow> \<exists>r. mapTotal f = Fin r"
proof (cases f)
  case (Scalar v) assume "numericMap f" then show ?thesis using Scalar by simp
next
  case (Dict m)
  assume "numericMap f"
  then have "list_all (\<lambda>p. isFinite (snd p)) m" using Dict by simp
  then have "\<exists>r. sum_list (map valueOf (map snd m)) = Fin r"
  proof (induction m)
    case Nil then show ?case by (simp add: zero_jsnum_def)
  next
    case (Cons p m)
    then obtain r where "sum_list (map valueOf (map snd m)) = Fin r" by auto
    moreover obtain q where "snd p = JNum (Fin q)" using Cons.prems by (cases "snd p" rule: isFinite.cases) auto
    ultimately show ?case by simp
  qed
  then show ?thesis using Dict by (simp add: mapTotal_def)
qed

subsection \<open>The normalizer\<close>

lemma normalize_fields:
  "tx_id (normalizeTransaction h d tx) = (if tx_id tx \<noteq> [] then tx_id tx else ''tx-'' @ substr 2 9 (random36 d))"
  "tanggal (normalizeTransaction h d tx) = (if tanggal tx \<noteq> [] then tanggal tx else today d)"
  "uraian (normalizeTransaction h d tx) = uraian tx"
  "penerimaan (normalizeTransaction h d tx) = normalizeField h ''Penerimaan'' (penerimaan tx)"
  "pengeluaran (normalizeTransaction h d tx) = normalizeField h ''Pengeluaran'' (pengeluaran tx)"
  "saldo_berjalan (normalizeTransaction h d tx) = JNum 0"
  "jumlah (normalizeTransaction h d tx) =
     JNum (sumValues h (objectValues (normalizeField h ''Penerimaan'' (penerimaan tx))) -
           sumValues h (objectValues (normalizeField h ''Pengeluaran'' (pengeluaran tx))))"
  by (simp_all add: normalizeTransaction_def Let_def)

lemma normalize_net:
  "jumlah (normalizeTransaction h d tx) = JNum (netAmount (normalizeTransaction h d tx))"
  by (simp add: normalize_fields netAmount_def numericMap_total normalizeField_numericMap)

lemma net_finite:
  "numericMap (penerimaan t) \<Longrightarrow> numericMap (pengeluaran t) \<Longrightarrow> \<exists>r. netAmount t = Fin r"
  using numericMap_total_finite [of "penerimaan t"] numericMap_total_finite [of "pengeluaran t"]
  by (auto simp: netAmount_def)



lemma set_enumerate_map:
  assumes "t \<in> set (map (\<lambda>(i, x). f i x) (enumerate n xs))"
  shows "\<exists>i x. x \<in> set xs \<and> t = f i x"
proof -
  from assms obtain i x where ix: "(i, x) \<in> set (enumerate n xs)" and t: "t = f i x"
    by auto
  from ix have "n \<le> i" "i < length xs + n" "xs ! (i - n) = x"
    by (simp_all add: in_set_enumerate_eq)
  then have "x \<in> set xs"
    using nth_mem [of "i - n" xs] by auto
  with t show ?thesis by blast
qed

lemma createAccount_transactions:
  "t \<in> set (transactions (createAccount h ds n txs)) \<Longrightarrow> \<exists>d x. t = normalizeTransaction h d x"
  unfolding createAccount_def using set_enumerate_map [of t "\<lambda>i. normalizeTransaction h (ds i)" 0 txs]
  by auto

lemma reducer_update_accounts:
  "a \<in> set (accounts (appReducer h ds s (UPDATE_ACCOUNT n txs))) \<Longrightarrow>
   (\<exists>i. a = createAccount h (ds i) n txs) \<or> (a \<in> set (accounts s) \<and> name a \<noteq> n)"
  using set_enumerate_map [of a "\<lambda>i account. if name account = n then createAccount h (ds i) n txs else account" 0 "accounts s"]
  by (auto split: if_splits)

lemma reducer_update_nth:
  "accounts (appReducer h ds s (UPDATE_ACCOUNT n txs)) =
     map (\<lambda>(i, a). if name a = n then createAccount h (ds i) n txs else a) (enumerate 0 (accounts s))"
  by simp


lemma map_enumerate_names:
  "(\<And>i x. g (f i x) = g x) \<Longrightarrow> map g (map (\<lambda>(i, x). f i x) (enumerate n xs)) = map g xs"
  by (induction xs arbitrary: n) simp_all

lemma createAccount_fields:
  "name (createAccount h ds n txs) = n"
  "balance (createAccount h ds n txs) = calculateAccountBalance h txs"
  by (simp_all add: createAccount_def)

lemma update_names:
  "map name (accounts (appReducer h ds s (UPDATE_ACCOUNT n txs))) = map name (accounts s)"
  unfolding reducer_update_nth
  by (rule map_enumerate_names) (simp add: createAccount_fields)

text \<open>
  Claim C10. For every input record, the normalizer returns a transaction whose
  \<open>saldo_berjalan\<close> is 0, whatever running balance the record carried; hence every
  transaction of an account built by \<open>createAccount\<close> has running balance 0, and so
  has every transaction of the account that \<open>UPDATE_ACCOUNT\<close> replaces and of the
  account that \<open>ADD_ACCOUNT\<close> appends.
\<close>

theorem normalize_discards_running_balance:
  "saldo_berjalan (normalizeTransaction h d tx) = JNum 0 \<and>
   (\<forall>t \<in> set (transactions (createAccount h ds n txs)). saldo_berjalan t = JNum 0) \<and>
   (\<forall>a \<in> set (accounts (appReducer h dss s (UPDATE_ACCOUNT n txs))).
       name a = n \<longrightarrow> (\<forall>t \<in> set (transactions a). saldo_berjalan t = JNum 0)) \<and>
   (\<not> list_ex (\<lambda>a. name a = newAccountName s p) (accounts s) \<longrightarrow>
       (\<forall>t \<in> set (transactions (last (accounts (appReducer h dss s (ADD_ACCOUNT p))))).
           saldo_berjalan t = JNum 0))"
proof (intro conjI ballI impI)
  show "saldo_berjalan (normalizeTransaction h d tx) = JNum 0"
    by (simp add: normalize_fields)
next
  fix t assume "t \<in> set (transactions (createAccount h ds n txs))"
  then show "saldo_berjalan t = JNum 0"
    by (auto simp: normalize_fields dest!: createAccount_transactions)
next
  fix a t
  assume a: "a \<in> set (accounts (appReducer h dss s (UPDATE_ACCOUNT n txs)))"
    and n: "name a = n" and t: "t \<in> set (transactions a)"
  from reducer_update_accounts [OF a] n obtain i where "a = createAccount h (dss i) n txs"
    by auto
  with t show "saldo_berjalan t = JNum 0"
    by (auto simp: normalize_fields dest!: createAccount_transactions)
next
  fix t
  assume "\<not> list_ex (\<lambda>a. name a = newAccountName s p) (accounts s)"
    and "t \<in> set (transactions (last (accounts (appReducer h dss s (ADD_ACCOUNT p)))))"
  then show "saldo_berjalan t = JNum 0"
    by (auto simp: Let_def normalize_fields dest!: createAccount_transactions)
qed

theorem normalize_discards_running_balance_witness:
  "saldo_berjalan salaryTx = JNum (Fin 100) \<and>
   saldo_berjalan (normalizeTransaction exampleHost exampleDraw salaryTx) = JNum 0 \<and>
   map saldo_berjalan (transactions (createAccount exampleHost (exampleDraws 0) ''Kas'' [salaryTx, rentTx])) = [JNum 0, JNum 0] \<and>
   map saldo_berjalan (concat (map transactions (accounts
       (appReducer exampleHost exampleDraws (initialState\<lparr>accounts := [kas]\<rparr>) (UPDATE_ACCOUNT ''Kas'' [salaryTx]))))) = [JNum 0] \<and>
   map saldo_berjalan (concat (map transactions (accounts
       (appReducer exampleHost exampleDraws initialState (ADD_ACCOUNT kas))))) = [JNum 0, JNum 0]"
  using normalize_discards_running_balance [where h = exampleHost and d = exampleDraw and tx = salaryTx
      and ds = "exampleDraws 0" and n = "''Kas''" and txs = "[salaryTx]" and dss = exampleDraws
      and s = "initialState\<lparr>accounts := [kas]\<rparr>" and p = kas]
    normalize_discards_running_balance [where h = exampleHost and d = exampleDraw and tx = salaryTx
      and ds = "exampleDraws 0" and n = "''Kas''" and txs = "[salaryTx]" and dss = exampleDraws
      and s = initialState and p = kas]
  by (simp add: salaryTx_def rentTx_def kas_def initialState_def createAccount_def
      normalizeTransaction_def Let_def newAccountName_def zero_jsnum_def)

text \<open>
  Claim C9, amended. When the income or expense field of a record is a string, the
  normalized map holds exactly the default category (\<open>Penerimaan\<close> or
  \<open>Pengeluaran\<close>) with \<open>Number\<close> of the string, or 0 when that is \<open>NaN\<close>. When the
  field is a bare number it is not wrapped: the normalized map is empty.
\<close>

theorem string_field_wrapped:
  "penerimaan (normalizeTransaction h d (tx\<lparr>penerimaan := Scalar (JStr s)\<rparr>)) =
      Dict [(''Penerimaan'', JNum (case stringToNumber h s of Fin r \<Rightarrow> Fin r | NaN \<Rightarrow> Fin 0))] \<and>
   pengeluaran (normalizeTransaction h d (tx\<lparr>pengeluaran := Scalar (JStr s)\<rparr>)) =
      Dict [(''Pengeluaran'', JNum (case stringToNumber h s of Fin r \<Rightarrow> Fin r | NaN \<Rightarrow> Fin 0))] \<and>
   penerimaan (normalizeTransaction h d (tx\<lparr>penerimaan := Scalar (JNum n)\<rparr>)) = Dict [] \<and>
   pengeluaran (normalizeTransaction h d (tx\<lparr>pengeluaran := Scalar (JNum n)\<rparr>)) = Dict []"
  by (simp add: normalize_fields numberOrZero_def)

theorem string_field_wrapped_witness:
  "penerimaan (normalizeTransaction exampleHost exampleDraw (salaryTx\<lparr>penerimaan := Scalar (JStr ''5000'')\<rparr>)) =
      Dict [(''Penerimaan'', JNum (Fin 5000))] \<and>
   pengeluaran (normalizeTransaction exampleHost exampleDraw (salaryTx\<lparr>pengeluaran := Scalar (JStr ''abc'')\<rparr>)) =
      Dict [(''Pengeluaran'', JNum (Fin 0))]"
proof -
  have a: "stringToNumber exampleHost ''5000'' = Fin 5000"
    by (simp add: exampleHost_def decimalNumber_def trim_def isSpace_def isDigit_def natOfDigits_def)
  have b: "stringToNumber exampleHost ''abc'' = NaN"
    by (simp add: exampleHost_def decimalNumber_def trim_def isSpace_def isDigit_def natOfDigits_def)
  show ?thesis
    using string_field_wrapped [where h = exampleHost and d = exampleDraw and tx = salaryTx and s = "''5000''"]
          string_field_wrapped [where h = exampleHost and d = exampleDraw and tx = salaryTx and s = "''abc''"]
    by (simp add: a b)
qed

text \<open>
  A numeric income field of 5000 is not wrapped under the default category.
\<close>

theorem number_field_not_wrapped:
  "penerimaan (normalizeTransaction exampleHost exampleDraw (salaryTx\<lparr>penerimaan := Scalar (JNum (Fin 5000))\<rparr>))
     \<noteq> Dict [(''Penerimaan'', JNum (Fin 5000))]"
  by (simp add: normalize_fields)




subsection \<open>The store\<close>

lemma list_ex_name: "list_ex (\<lambda>a. name a = n) xs \<longleftrightarrow> n \<in> set (map name xs)"
  by (auto simp: list_ex_iff)

lemma filter_distinct_one:
  "distinct (map f xs) \<Longrightarrow> k \<in> set (map f xs) \<Longrightarrow> length (filter (\<lambda>a. f a = k) xs) = 1"
proof (induction xs)
  case Nil then show ?case by simp
next
  case (Cons x xs)
  show ?case
  proof (cases "f x = k")
    case True
    then have "\<forall>a \<in> set xs. f a \<noteq> k"
      using Cons.prems(1) by (metis distinct.simps(2) image_eqI list.simps(9) set_map)
    then have "filter (\<lambda>a. f a = k) xs = []"
      by (simp add: filter_empty_conv)
    with True show ?thesis by simp
  next
    case False
    then show ?thesis using Cons by auto
  qed
qed

lemma storeInvariant_names:
  "storeInvariant s \<longleftrightarrow>
     distinct (map name (accounts s)) \<and>
     (currentAccount s = None \<longrightarrow> map name (accounts s) = []) \<and>
     (\<forall>n. currentAccount s = Some n \<longrightarrow> n \<in> set (map name (accounts s)))"
  unfolding storeInvariant_def list_ex_name by (simp split: option.splits)

lemma storeInvariant_cong:
  "map name (accounts s') = map name (accounts s) \<Longrightarrow> currentAccount s' = currentAccount s \<Longrightarrow>
   storeInvariant s' = storeInvariant s"
  unfolding storeInvariant_names by simp

lemma invariant_pointer: "storeInvariant s \<Longrightarrow> pointerValid s \<and> oneCurrent s"
proof (cases "currentAccount s")
  case None
  assume "storeInvariant s"
  then show ?thesis using None by (simp add: storeInvariant_def pointerValid_def oneCurrent_def)
next
  case (Some n)
  assume inv: "storeInvariant s"
  then have "n \<in> set (map name (accounts s))" "distinct (map name (accounts s))"
    using Some by (simp_all add: storeInvariant_def list_ex_name)
  then have "length (filter (\<lambda>a. name a = n) (accounts s)) = 1"
    using filter_distinct_one [of name "accounts s" n] by simp
  then show ?thesis using inv Some
    by (simp add: storeInvariant_def pointerValid_def oneCurrent_def)
qed

lemma invariant_update:
  "storeInvariant s \<Longrightarrow> storeInvariant (appReducer h ds s (UPDATE_ACCOUNT n txs))"
  using storeInvariant_cong [of "appReducer h ds s (UPDATE_ACCOUNT n txs)" s] update_names [of h ds s n txs]
  by simp

lemma invariant_add:
  "storeInvariant s \<Longrightarrow> storeInvariant (appReducer h ds s (ADD_ACCOUNT p))"
  by (auto simp: storeInvariant_names list_ex_name Let_def createAccount_fields split: option.splits)

lemma invariant_set_accounts:
  assumes "distinct (map name payload)" and "\<forall>a \<in> set payload. name a \<noteq> []"
    and "orElse (currentAccount s) None = None \<or>
         (\<exists>m. currentAccount s = Some m \<and> list_ex (\<lambda>a. name a = m) payload)"
  shows "storeInvariant (appReducer h ds s (SET_ACCOUNTS payload))"
proof -
  let ?s' = "appReducer h ds s (SET_ACCOUNTS payload)"
  have names: "map name (accounts ?s') = map name payload"
    by (simp add: Let_def comp_def)
  have cur: "currentAccount ?s' =
        orElse (currentAccount s) (case payload of [] \<Rightarrow> None | a # _ \<Rightarrow> orElse (Some (name a)) None)"
    by (cases payload) (simp_all add: Let_def)
  from assms(3) show ?thesis
  proof
    assume e: "orElse (currentAccount s) None = None"
    then have "orElse (currentAccount s) y = y" for y
      by (cases "currentAccount s") (auto split: if_splits)
    then show ?thesis
      unfolding storeInvariant_names cur names using assms(1,2)
      by (cases payload) simp_all
  next
    assume "\<exists>m. currentAccount s = Some m \<and> list_ex (\<lambda>a. name a = m) payload"
    then obtain m where m: "currentAccount s = Some m" "m \<in> set (map name payload)"
      by (auto simp: list_ex_name)
    then have "m \<noteq> []" using assms(2) by auto
    then have "orElse (currentAccount s) y = Some m" for y using m by simp
    then show ?thesis
      unfolding storeInvariant_names cur names using assms(1) m(2)
      by simp
  qed
qed

text \<open>
  Claim C5, amended. The reducer does not validate the pointer. The store invariant
  (distinct account names; a pointer that names an account of the list, and is empty
  only in an empty store) holds initially and implies that the pointer is valid and
  that exactly one account is current. It is preserved by \<open>UPDATE_ACCOUNT\<close>,
  \<open>ADD_ACCOUNT\<close>, \<open>SET_LOADING\<close>, \<open>SET_ERROR\<close> and \<open>SET_BACKEND_READY\<close>; by
  \<open>SET_CURRENT_ACCOUNT\<close> when the payload names an account of the list; and it is
  established by \<open>SET_ACCOUNTS\<close> when the payload's names are distinct and non-empty
  and the previous pointer is empty or names an account of the payload.
\<close>

theorem pointer_invariant:
  "storeInvariant initialState \<and>
   (storeInvariant s \<longrightarrow> pointerValid s \<and> oneCurrent s) \<and>
   (storeInvariant s \<longrightarrow> storeInvariant (appReducer h ds s (UPDATE_ACCOUNT n txs))) \<and>
   (storeInvariant s \<longrightarrow> storeInvariant (appReducer h ds s (ADD_ACCOUNT p))) \<and>
   (storeInvariant s \<longrightarrow> storeInvariant (appReducer h ds s (SET_LOADING b))) \<and>
   (storeInvariant s \<longrightarrow> storeInvariant (appReducer h ds s (SET_ERROR e))) \<and>
   (storeInvariant s \<longrightarrow> storeInvariant (appReducer h ds s (SET_BACKEND_READY b))) \<and>
   (storeInvariant s \<and> list_ex (\<lambda>a. name a = m) (accounts s) \<longrightarrow>
      storeInvariant (appReducer h ds s (SET_CURRENT_ACCOUNT (Some m)))) \<and>
   (distinct (map name payload) \<and> (\<forall>a \<in> set payload. name a \<noteq> []) \<and>
    (orElse (currentAccount s) None = None \<or>
     (\<exists>m. currentAccount s = Some m \<and> list_ex (\<lambda>a. name a = m) payload)) \<longrightarrow>
      storeInvariant (appReducer h ds s (SET_ACCOUNTS payload)))"
proof (intro conjI impI)
  show "storeInvariant initialState"
    by (simp add: storeInvariant_def initialState_def)
  show "storeInvariant (appReducer h ds s (UPDATE_ACCOUNT n txs))" if "storeInvariant s"
    using that by (rule invariant_update)
  show "storeInvariant (appReducer h ds s (ADD_ACCOUNT p))" if "storeInvariant s"
    using that by (rule invariant_add)
  show "storeInvariant (appReducer h ds s (SET_ACCOUNTS payload))"
    if "distinct (map name payload) \<and> (\<forall>a \<in> set payload. name a \<noteq> []) \<and>
        (orElse (currentAccount s) None = None \<or>
         (\<exists>m. currentAccount s = Some m \<and> list_ex (\<lambda>a. name a = m) payload))"
    using that invariant_set_accounts [of payload s h ds] by blast
qed (simp_all add: invariant_pointer storeInvariant_names list_ex_name)


theorem pointer_invariant_witness:
  "storeInvariant (initialState\<lparr>accounts := [kas], currentAccount := Some ''Kas''\<rparr>) \<and>
   pointerValid (initialState\<lparr>accounts := [kas], currentAccount := Some ''Kas''\<rparr>) \<and>
   oneCurrent (initialState\<lparr>accounts := [kas], currentAccount := Some ''Kas''\<rparr>) \<and>
   storeInvariant (appReducer exampleHost exampleDraws
      (initialState\<lparr>accounts := [kas], currentAccount := Some ''Kas''\<rparr>) (ADD_ACCOUNT bank)) \<and>
   storeInvariant (appReducer exampleHost exampleDraws
      (initialState\<lparr>accounts := [kas], currentAccount := Some ''Kas''\<rparr>) (UPDATE_ACCOUNT ''Kas'' [rentTx])) \<and>
   storeInvariant (appReducer exampleHost exampleDraws
      (initialState\<lparr>accounts := [kas], currentAccount := Some ''Kas''\<rparr>) (SET_CURRENT_ACCOUNT (Some ''Kas''))) \<and>
   storeInvariant (appReducer exampleHost exampleDraws
      (initialState\<lparr>accounts := [kas], currentAccount := Some ''Kas''\<rparr>) (SET_ACCOUNTS [bank, kas]))"
proof -
  let ?s = "initialState\<lparr>accounts := [kas], currentAccount := Some ''Kas''\<rparr>"
  have inv: "storeInvariant ?s"
    by (simp add: storeInvariant_def initialState_def kas_def)
  have ex: "list_ex (\<lambda>a. name a = ''Kas'') (accounts ?s)"
    by (simp add: kas_def)
  have pl: "distinct (map name [bank, kas]) \<and> (\<forall>a \<in> set [bank, kas]. name a \<noteq> []) \<and>
        (orElse (currentAccount ?s) None = None \<or>
         (\<exists>m. currentAccount ?s = Some m \<and> list_ex (\<lambda>a. name a = m) [bank, kas]))"
    by (simp add: kas_def bank_def)
  show ?thesis
    using inv ex pl
      pointer_invariant [where s = ?s and h = exampleHost and ds = exampleDraws and n = "''Kas''"
        and txs = "[rentTx]" and p = bank and m = "''Kas''" and payload = "[bank, kas]"]
    by blast
qed

text \<open>
  Replacing the account list keeps a non-empty pointer: after loading \<open>Kas\<close> and then
  a list that holds \<open>Bank\<close> only, the pointer still says \<open>Kas\<close>.
\<close>

theorem stale_pointer_after_replacing_accounts:
  "accounts (dispatchAll exampleHost exampleDraws initialState [SET_ACCOUNTS [kas], SET_ACCOUNTS [bank]]) = [bank] \<and>
   currentAccount (dispatchAll exampleHost exampleDraws initialState [SET_ACCOUNTS [kas], SET_ACCOUNTS [bank]]) = Some ''Kas'' \<and>
   \<not> pointerValid (dispatchAll exampleHost exampleDraws initialState [SET_ACCOUNTS [kas], SET_ACCOUNTS [bank]])"
  by (simp add: dispatchAll_def initialState_def kas_def bank_def pointerValid_def Let_def
      calculateAccountBalance_def zero_jsnum_def)





subsection \<open>The upload path\<close>

lemma categoryValues_numeric: "numericMap (Dict (categoryValues h prefix headers row cols))"
proof -
  have "distinct (map fst acc) \<and> list_all (\<lambda>p. isFinite (snd p)) acc \<Longrightarrow>
        distinct (map fst (foldl (\<lambda>m col.
            let v = getNumberValue h row col
            in if jsPositive v then assign (stripPrefix prefix (headers ! col)) (JNum v) m else m) acc cols)) \<and>
        list_all (\<lambda>p. isFinite (snd p)) (foldl (\<lambda>m col.
            let v = getNumberValue h row col
            in if jsPositive v then assign (stripPrefix prefix (headers ! col)) (JNum v) m else m) acc cols)"
    for acc
  proof (induction cols arbitrary: acc)
    case Nil then show ?case by simp
  next
    case (Cons col cols)
    let ?v = "getNumberValue h row col"
    let ?acc = "if jsPositive ?v then assign (stripPrefix prefix (headers ! col)) (JNum ?v) acc else acc"
    have "distinct (map fst ?acc) \<and> list_all (\<lambda>p. isFinite (snd p)) ?acc"
    proof (cases "jsPositive ?v")
      case False then show ?thesis using Cons.prems by simp
    next
      case True
      then obtain r where "?v = Fin r" by (cases ?v) auto
      then have "isFinite (JNum ?v)" by simp
      then have "list_all (\<lambda>p. isFinite (snd p)) (assign (stripPrefix prefix (headers ! col)) (JNum ?v) acc)"
        using Cons.prems values_assign [of _ "stripPrefix prefix (headers ! col)" "JNum ?v" acc]
        by (fastforce simp: list_all_iff)
      then show ?thesis using True Cons.prems by (simp add: distinct_assign)
    qed
    from Cons.IH [OF this] show ?case by (simp add: Let_def)
  qed
  from this [of "[]"] show ?thesis by (simp add: categoryValues_def)
qed

lemma parseRow_fields:
  "penerimaan (fst (parseRow h d headers dc sc jc pens pengs i row rb)) =
      Dict (categoryValues h ''penerimaan_'' headers row pens)"
  "pengeluaran (fst (parseRow h d headers dc sc jc pens pengs i row rb)) =
      Dict (categoryValues h ''pengeluaran_'' headers row pengs)"
  "jumlah (fst (parseRow h d headers dc sc jc pens pengs i row rb)) =
      (case cellAt row jc of JNum n \<Rightarrow> JNum n | _ \<Rightarrow> JNum 0)"
  by (simp_all add: parseRow_def Let_def)

lemma mapUploadedTx_numeric:
  assumes "numericMap (penerimaan t)" "numericMap (pengeluaran t)"
  shows "penerimaan (mapUploadedTx h d t) = penerimaan t"
    and "pengeluaran (mapUploadedTx h d t) = pengeluaran t"
    and "jumlah (mapUploadedTx h d t) =
          (case jumlah t of
             JNum n \<Rightarrow> if jsIsZero n then JNum (netAmount (mapUploadedTx h d t)) else JNum n
           | _ \<Rightarrow> JNum (netAmount (mapUploadedTx h d t)))"
proof -
  obtain m1 m2 where m: "penerimaan t = Dict m1" "pengeluaran t = Dict m2"
    using assms by (cases "penerimaan t"; cases "pengeluaran t") auto
  show p: "penerimaan (mapUploadedTx h d t) = penerimaan t"
    and q: "pengeluaran (mapUploadedTx h d t) = pengeluaran t"
    using m by (simp_all add: mapUploadedTx_def Let_def)
  have net: "netAmount (mapUploadedTx h d t) =
        sumValues h (objectValues (penerimaan t)) - sumValues h (objectValues (pengeluaran t))"
    using assms by (simp add: netAmount_def p q numericMap_total)
  show "jumlah (mapUploadedTx h d t) =
          (case jumlah t of
             JNum n \<Rightarrow> if jsIsZero n then JNum (netAmount (mapUploadedTx h d t)) else JNum n
           | _ \<Rightarrow> JNum (netAmount (mapUploadedTx h d t)))"
    unfolding net using m
    by (cases "jumlah t") (simp_all add: mapUploadedTx_def Let_def zero_jsnum_def)
qed

lemma upload_row_amount:
  "jumlah (mapUploadedTx h d (fst (parseRow h d' headers dc sc jc pens pengs i row rb))) =
     (case cellAt row jc of
        JNum n \<Rightarrow> if jsIsZero n
                  then JNum (netAmount (mapUploadedTx h d (fst (parseRow h d' headers dc sc jc pens pengs i row rb))))
                  else JNum n
      | _ \<Rightarrow> JNum (netAmount (mapUploadedTx h d (fst (parseRow h d' headers dc sc jc pens pengs i row rb)))))"
proof -
  let ?t = "fst (parseRow h d' headers dc sc jc pens pengs i row rb)"
  have "numericMap (penerimaan ?t)" "numericMap (pengeluaran ?t)"
    by (simp_all only: parseRow_fields categoryValues_numeric)
  from mapUploadedTx_numeric(3) [OF this, of h d] show ?thesis
    by (cases "cellAt row jc") (simp_all add: parseRow_fields zero_jsnum_def)
qed

text \<open>
  Claim C1, amended. The normalizer always sets \<open>jumlah\<close> to the sum of the values
  of the income map minus the sum of the values of the expense map of the transaction
  it returns, a finite number; so does every transaction of an account replaced by
  \<open>UPDATE_ACCOUNT\<close> (the path on which the editor saves) or appended by
  \<open>ADD_ACCOUNT\<close>. On the upload path the amount of a parsed row, as mapped by
  \<open>processAndUpdateAccounts\<close>, is the \<open>jumlah\<close> cell of the sheet when that cell is a
  number other than 0, and the net of the two maps otherwise; \<open>SET_ACCOUNTS\<close> stores
  the transactions it is given as they are.
\<close>

theorem amount_derivation:
  "jumlah (normalizeTransaction h d tx) = JNum (netAmount (normalizeTransaction h d tx)) \<and>
   (\<exists>r. netAmount (normalizeTransaction h d tx) = Fin r) \<and>
   (\<forall>a \<in> set (accounts (appReducer h ds s (UPDATE_ACCOUNT n txs))).
       name a = n \<longrightarrow> (\<forall>t \<in> set (transactions a). jumlah t = JNum (netAmount t))) \<and>
   (\<not> list_ex (\<lambda>a. name a = newAccountName s p) (accounts s) \<longrightarrow>
       (\<forall>t \<in> set (transactions (last (accounts (appReducer h ds s (ADD_ACCOUNT p))))).
           jumlah t = JNum (netAmount t))) \<and>
   jumlah (mapUploadedTx h d (fst (parseRow h d' headers dc sc jc pens pengs i row rb))) =
     (case cellAt row jc of
        JNum v \<Rightarrow> if jsIsZero v
                  then JNum (netAmount (mapUploadedTx h d (fst (parseRow h d' headers dc sc jc pens pengs i row rb))))
                  else JNum v
      | _ \<Rightarrow> JNum (netAmount (mapUploadedTx h d (fst (parseRow h d' headers dc sc jc pens pengs i row rb))))) \<and>
   map transactions (accounts (appReducer h ds s (SET_ACCOUNTS payload))) = map transactions payload"
proof (intro conjI ballI impI)
  show "jumlah (normalizeTransaction h d tx) = JNum (netAmount (normalizeTransaction h d tx))"
    by (rule normalize_net)
  show "\<exists>r. netAmount (normalizeTransaction h d tx) = Fin r"
    by (rule net_finite) (simp_all add: normalize_fields normalizeField_numericMap)
  show "map transactions (accounts (appReducer h ds s (SET_ACCOUNTS payload))) = map transactions payload"
    by (simp add: Let_def comp_def)
next
  fix a t
  assume a: "a \<in> set (accounts (appReducer h ds s (UPDATE_ACCOUNT n txs)))"
    and n: "name a = n" and t: "t \<in> set (transactions a)"
  from reducer_update_accounts [OF a] n obtain i where "a = createAccount h (ds i) n txs"
    by auto
  with t show "jumlah t = JNum (netAmount t)"
    by (auto simp: normalize_net dest!: createAccount_transactions)
next
  fix t
  assume "\<not> list_ex (\<lambda>a. name a = newAccountName s p) (accounts s)"
    and "t \<in> set (transactions (last (accounts (appReducer h ds s (ADD_ACCOUNT p)))))"
  then show "jumlah t = JNum (netAmount t)"
    by (auto simp: Let_def normalize_net dest!: createAccount_transactions)
next
  show "jumlah (mapUploadedTx h d (fst (parseRow h d' headers dc sc jc pens pengs i row rb))) =
     (case cellAt row jc of
        JNum v \<Rightarrow> if jsIsZero v
                  then JNum (netAmount (mapUploadedTx h d (fst (parseRow h d' headers dc sc jc pens pengs i row rb))))
                  else JNum v
      | _ \<Rightarrow> JNum (netAmount (mapUploadedTx h d (fst (parseRow h d' headers dc sc jc pens pengs i row rb)))))"
    by (rule upload_row_amount)
qed

lemma scenario_headers:
  "map (headerText h) scenarioHeader = [''tanggal'', ''uraian'', ''jumlah'', ''penerimaan_gaji'', ''pengeluaran_sewa'']"
  by (simp add: scenarioHeader_def headerText_def trim_def isSpace_def)

lemma scenario_lower:
  "toLowerCase ''tanggal'' = ''tanggal''" "toLowerCase ''uraian'' = ''uraian''"
  "toLowerCase ''jumlah'' = ''jumlah''" "toLowerCase ''penerimaan_gaji'' = ''penerimaan_gaji''"
  "toLowerCase ''pengeluaran_sewa'' = ''pengeluaran_sewa''"
  by (simp_all add: toLowerCase_def lowerChar_def)

lemma scenario_cols:
  "prefixCols ''penerimaan_'' [''tanggal'', ''uraian'', ''jumlah'', ''penerimaan_gaji'', ''pengeluaran_sewa''] = [3]"
  "prefixCols ''pengeluaran_'' [''tanggal'', ''uraian'', ''jumlah'', ''penerimaan_gaji'', ''pengeluaran_sewa''] = [4]"
  by (simp_all add: prefixCols_def enumerate_eq_zip startsWith_def scenario_lower upt_rec)

lemma scenario_parseRow:
  "parseRow h d [''tanggal'', ''uraian'', ''jumlah'', ''penerimaan_gaji'', ''pengeluaran_sewa'']
      0 (Suc 0) (Suc (Suc 0)) [3] [4] (Suc 0) (scenarioRow j) (Fin 0) =
   (\<lparr> tx_id = ''tx-'' @ nowMillis d @ ''-1-'' @ substr 2 4 (random36 d),
      tanggal = ''2024-01-15'', uraian = ''Gaji bulanan'',
      penerimaan = Dict [(''gaji'', JNum (Fin 5000000))], pengeluaran = Dict [],
      jumlah = JNum (Fin j),
      saldo_berjalan = JNum (if j = 0 then Fin 5000000 else Fin j) \<rparr>,
    if j = 0 then Fin 5000000 else Fin j)"
  by (simp add: parseRow_def scenarioRow_def categoryValues_def getNumberValue_def getStringValue_def
      cellAt_def stripPrefix_def startsWith_def scenario_lower sumPlain_def parseExcelDate_def
      isoPattern_def isDigit_def trim_def isSpace_def zero_jsnum_def showNat.simps Let_def)


lemma scenario_sheet:
  "parseSheet h ds (''Kas'', [scenarioHeader, scenarioRow j]) =
     Some \<lparr> acc_id = ''acc-'' @ nowMillis (ds 0) @ ''-kas'', acc_name = ''Kas'',
            acc_balance = (if j = 0 then Fin 5000000 else Fin j),
            acc_transactions =
              [\<lparr> tx_id = ''tx-'' @ nowMillis (ds 1) @ ''-1-'' @ substr 2 4 (random36 (ds 1)),
                 tanggal = ''2024-01-15'', uraian = ''Gaji bulanan'',
                 penerimaan = Dict [(''gaji'', JNum (Fin 5000000))], pengeluaran = Dict [],
                 jumlah = JNum (Fin j),
                 saldo_berjalan = JNum (if j = 0 then Fin 5000000 else Fin j) \<rparr>] \<rparr>"
proof -
  have row: "scenarioRow j \<noteq> []" by (simp add: scenarioRow_def)
  have nm: "toLowerCase (dashSpaces ''Kas'') = ''kas''"
    by (simp add: dashSpaces_def isSpace_def toLowerCase_def lowerChar_def)
  show ?thesis
    by (simp add: parseSheet_def scenario_headers scenario_cols scenario_lower row nm
        scenario_parseRow zero_jsnum_def)
qed

lemma scenario_upload:
  "handleFileUpload h ds (scenarioWorkbook j) =
     Inr [\<lparr> acc_id = ''acc-'' @ nowMillis (ds 0 0) @ ''-kas'', acc_name = ''Kas'',
            acc_balance = (if j = 0 then Fin 5000000 else Fin j),
            acc_transactions =
              [\<lparr> tx_id = ''tx-'' @ nowMillis (ds 0 1) @ ''-1-'' @ substr 2 4 (random36 (ds 0 1)),
                 tanggal = ''2024-01-15'', uraian = ''Gaji bulanan'',
                 penerimaan = Dict [(''gaji'', JNum (Fin 5000000))], pengeluaran = Dict [],
                 jumlah = JNum (Fin j),
                 saldo_berjalan = JNum (if j = 0 then Fin 5000000 else Fin j) \<rparr>] \<rparr>]"
  by (simp add: handleFileUpload_def scenarioWorkbook_def List.map_filter_def scenario_sheet)

lemma scenario_accounts:
  "accounts (dispatchAll h ds s (uploadActions h ds s (scenarioWorkbook j))) =
     [\<lparr> name = ''Kas'',
        transactions =
          [\<lparr> tx_id = ''tx-'' @ nowMillis (ds 0 1) @ ''-1-'' @ substr 2 4 (random36 (ds 0 1)),
             tanggal = ''2024-01-15'', uraian = ''Gaji bulanan'',
             penerimaan = Dict [(''gaji'', JNum (Fin 5000000))], pengeluaran = Dict [],
             jumlah = JNum (if j = 0 then Fin 5000000 else Fin j),
             saldo_berjalan = JNum (if j = 0 then Fin 5000000 else Fin j) \<rparr>],
        balance = Fin 5000000 \<rparr>]"
  by (simp add: uploadActions_def scenario_upload processAndUpdateAccounts_def mapUploadedAccount_def
      mapUploadedTx_def asAccountBase_def dispatchAll_def Let_def sumValues_def numberOrZero_def
      calculateAccountBalance_def zero_jsnum_def)


theorem amount_derivation_witness:
  "jumlah (normalizeTransaction exampleHost exampleDraw (salaryTx\<lparr>jumlah := JNum (Fin 12345)\<rparr>)) = JNum (Fin 100) \<and>
   netAmount (normalizeTransaction exampleHost exampleDraw (salaryTx\<lparr>jumlah := JNum (Fin 12345)\<rparr>)) = Fin 100 \<and>
   map name (accounts (appReducer exampleHost exampleDraws (initialState\<lparr>accounts := [kas]\<rparr>)
        (UPDATE_ACCOUNT ''Kas'' [salaryTx\<lparr>jumlah := JNum (Fin 12345)\<rparr>]))) = [''Kas''] \<and>
   map jumlah (concat (map transactions (accounts (appReducer exampleHost exampleDraws (initialState\<lparr>accounts := [kas]\<rparr>)
        (UPDATE_ACCOUNT ''Kas'' [salaryTx\<lparr>jumlah := JNum (Fin 12345)\<rparr>])))))
     = [JNum (Fin 100)] \<and>
   \<not> list_ex (\<lambda>a. name a = newAccountName initialState (bank\<lparr>transactions := [rentTx\<lparr>jumlah := JNull\<rparr>]\<rparr>)) (accounts initialState) \<and>
   map jumlah (transactions (last (accounts (appReducer exampleHost exampleDraws initialState
        (ADD_ACCOUNT (bank\<lparr>transactions := [rentTx\<lparr>jumlah := JNull\<rparr>]\<rparr>))))))
     = [JNum (Fin (- 30))] \<and>
   cellAt (scenarioRow 999) 2 = JNum (Fin 999) \<and>
   jumlah (mapUploadedTx exampleHost exampleDraw (fst (parseRow exampleHost exampleDraw
        [''tanggal'', ''uraian'', ''jumlah'', ''penerimaan_gaji'', ''pengeluaran_sewa'']
        0 (Suc 0) (Suc (Suc 0)) [3] [4] (Suc 0) (scenarioRow 999) (Fin 0)))) = JNum (Fin 999) \<and>
   cellAt (scenarioRow 0) 2 = JNum (Fin 0) \<and>
   jumlah (mapUploadedTx exampleHost exampleDraw (fst (parseRow exampleHost exampleDraw
        [''tanggal'', ''uraian'', ''jumlah'', ''penerimaan_gaji'', ''pengeluaran_sewa'']
        0 (Suc 0) (Suc (Suc 0)) [3] [4] (Suc 0) (scenarioRow 0) (Fin 0)))) = JNum (Fin 5000000)"
proof -
  let ?hdrs = "[''tanggal'', ''uraian'', ''jumlah'', ''penerimaan_gaji'', ''pengeluaran_sewa'']"
  have n1: "normalizeTransaction exampleHost exampleDraw (salaryTx\<lparr>jumlah := JNum (Fin 12345)\<rparr>)
            = salaryTx\<lparr>saldo_berjalan := JNum 0\<rparr>"
    by (simp add: normalizeTransaction_def salaryTx_def sumValues_def numberOrZero_def zero_jsnum_def)
  have n2: "normalizeTransaction exampleHost exampleDraw (rentTx\<lparr>jumlah := JNull\<rparr>)
            = rentTx\<lparr>saldo_berjalan := JNum 0\<rparr>"
    by (simp add: normalizeTransaction_def rentTx_def sumValues_def numberOrZero_def zero_jsnum_def)
  have net: "netAmount (salaryTx\<lparr>saldo_berjalan := JNum 0\<rparr>) = Fin 100"
    by (simp add: netAmount_def mapTotal_def salaryTx_def zero_jsnum_def)
  have c: "cellAt (scenarioRow 999) 2 = JNum (Fin 999)" "cellAt (scenarioRow 0) 2 = JNum (Fin 0)"
    by (simp_all add: cellAt_def scenarioRow_def)
  have m: "netAmount (mapUploadedTx exampleHost exampleDraw (fst (parseRow exampleHost exampleDraw
        ?hdrs 0 (Suc 0) (Suc (Suc 0)) [3] [4] (Suc 0) (scenarioRow 0) (Fin 0)))) = Fin 5000000"
    by (simp add: scenario_parseRow mapUploadedTx_def netAmount_def mapTotal_def Let_def
        sumValues_def numberOrZero_def zero_jsnum_def)
  have fresh: "\<not> list_ex (\<lambda>a. name a = newAccountName initialState (bank\<lparr>transactions := [rentTx\<lparr>jumlah := JNull\<rparr>]\<rparr>))
        (accounts initialState)"
    by (simp add: initialState_def)
  note t1 = amount_derivation [where h = exampleHost and d = exampleDraw and d' = exampleDraw
      and tx = "salaryTx\<lparr>jumlah := JNum (Fin 12345)\<rparr>" and ds = exampleDraws
      and s = "initialState\<lparr>accounts := [kas]\<rparr>" and n = "''Kas''"
      and txs = "[salaryTx\<lparr>jumlah := JNum (Fin 12345)\<rparr>]" and p = bank
      and headers = ?hdrs and dc = 0 and sc = "Suc 0" and jc = "Suc (Suc 0)" and pens = "[3]" and pengs = "[4]"
      and i = "Suc 0" and row = "scenarioRow 999" and rb = "Fin 0" and payload = "[]"]
  note t2 = amount_derivation [where h = exampleHost and d = exampleDraw and d' = exampleDraw
      and tx = "salaryTx" and ds = exampleDraws
      and s = initialState and n = "''Kas''"
      and txs = "[]" and p = "bank\<lparr>transactions := [rentTx\<lparr>jumlah := JNull\<rparr>]\<rparr>"
      and headers = ?hdrs and dc = 0 and sc = "Suc 0" and jc = "Suc (Suc 0)" and pens = "[3]" and pengs = "[4]"
      and i = "Suc 0" and row = "scenarioRow 0" and rb = "Fin 0" and payload = "[]"]
  have u: "jumlah (mapUploadedTx exampleHost exampleDraw (fst (parseRow exampleHost exampleDraw
        ?hdrs 0 (Suc 0) (Suc (Suc 0)) [3] [4] (Suc 0) (scenarioRow 999) (Fin 0)))) = JNum (Fin 999)"
    using t1 c by (simp add: numeral_2_eq_2)
  have v: "jumlah (mapUploadedTx exampleHost exampleDraw (fst (parseRow exampleHost exampleDraw
        ?hdrs 0 (Suc 0) (Suc (Suc 0)) [3] [4] (Suc 0) (scenarioRow 0) (Fin 0)))) = JNum (Fin 5000000)"
    using t2 c m by (simp add: numeral_2_eq_2)
  have a: "jumlah (normalizeTransaction exampleHost exampleDraw (salaryTx\<lparr>jumlah := JNum (Fin 12345)\<rparr>)) = JNum (Fin 100)"
    using t1 n1 net by simp
  have bal: "calculateAccountBalance exampleHost [salaryTx\<lparr>jumlah := JNum (Fin 12345)\<rparr>] = Fin 100"
    by (simp add: calculateAccountBalance_def salaryTx_def sumValues_def numberOrZero_def zero_jsnum_def)
  have upd: "accounts (appReducer exampleHost exampleDraws (initialState\<lparr>accounts := [kas]\<rparr>)
        (UPDATE_ACCOUNT ''Kas'' [salaryTx\<lparr>jumlah := JNum (Fin 12345)\<rparr>]))
      = [kas\<lparr>transactions := [salaryTx\<lparr>saldo_berjalan := JNum 0\<rparr>], balance := Fin 100\<rparr>]"
    by (simp add: createAccount_def n1 bal exampleDraws_def kas_def)
  have add: "transactions (last (accounts (appReducer exampleHost exampleDraws initialState
        (ADD_ACCOUNT (bank\<lparr>transactions := [rentTx\<lparr>jumlah := JNull\<rparr>]\<rparr>)))))
      = [rentTx\<lparr>saldo_berjalan := JNum 0\<rparr>]"
    using fresh by (simp add: Let_def createAccount_def n2 exampleDraws_def)
  show ?thesis
    using a u v c fresh
    by (simp add: n1 net upd add del: appReducer.simps) (simp add: kas_def salaryTx_def rentTx_def)
qed

text \<open>
  A sheet whose \<open>jumlah\<close> cell says 999 beside an income of 5000000: the store holds
  the amount 999.
\<close>

theorem upload_keeps_sheet_amount:
  "map jumlah (concat (map transactions (accounts (dispatchAll exampleHost exampleDraws initialState
       (uploadActions exampleHost exampleDraws initialState (scenarioWorkbook 999)))))) = [JNum (Fin 999)] \<and>
   map netAmount (concat (map transactions (accounts (dispatchAll exampleHost exampleDraws initialState
       (uploadActions exampleHost exampleDraws initialState (scenarioWorkbook 999)))))) = [Fin 5000000]"
  by (simp add: scenario_accounts netAmount_def mapTotal_def zero_jsnum_def)



subsection \<open>The reports page and the editor\<close>

subsection \<open>Sorting\<close>

lemma mset_insertWith: "mset (insertWith cmp x ys) = add_mset x (mset ys)"
  by (induction ys) simp_all

lemma mset_sortWith: "mset (sortWith cmp xs) = mset xs"
  unfolding sortWith_def by (induction xs) (simp_all add: mset_insertWith)


lemma length_sortWith: "length (sortWith cmp xs) = length xs"
  using mset_sortWith [of cmp xs] by (metis size_mset)




lemma insertWith_insort_key:
  assumes "\<And>y. y \<in> set ys \<Longrightarrow> notAfter (cmp x y) = (k x \<le> k y)"
  shows "insertWith cmp x ys = insort_key k x ys"
  using assms by (induction ys) simp_all

lemma date_compare:
  "validDate h a \<Longrightarrow> validDate h b \<Longrightarrow>
   notAfter (dateTime h (tanggal a) - dateTime h (tanggal b)) = (timeOf h a \<le> timeOf h b)"
  by (auto simp: validDate_def timeOf_def split: jsnum.splits)

lemma sortedTransactions_sort_key:
  "list_all (validDate h) txs \<Longrightarrow> sortedTransactions h txs = sort_key (timeOf h) txs"
proof (induction txs)
  case Nil then show ?case by (simp add: sortedTransactions_def sortWith_def)
next
  case (Cons t txs)
  then have ih: "sortedTransactions h txs = sort_key (timeOf h) txs" by simp
  have "insertWith (\<lambda>a b. dateTime h (tanggal a) - dateTime h (tanggal b)) t (sort_key (timeOf h) txs)
        = insort_key (timeOf h) t (sort_key (timeOf h) txs)"
    using Cons.prems by (intro insertWith_insort_key date_compare) (auto simp: list_all_iff)
  then show ?case using ih by (simp add: sortedTransactions_def sortWith_def)
qed

subsection \<open>The report loop\<close>

lemma reportStep_fields:
  "runningBalance (reportStep h acc t) = runningBalance acc + reportNet t"
  "runningBalanceData (reportStep h acc t) = runningBalanceData acc @
      [\<lparr> br_date = tanggal t, br_income = reportIncome t, br_expense = reportExpense t,
         br_balance = reportNet t, br_runningBalance = runningBalance acc + reportNet t \<rparr>]"
  "monthlyData (reportStep h acc t) =
      addToBucket (monthOf h (tanggal t)) (reportIncome t) (reportExpense t) (monthlyData acc)"
  "yearlyData (reportStep h acc t) =
      addToBucket (yearOf h (tanggal t)) (reportIncome t) (reportExpense t) (yearlyData acc)"
  by (simp_all add: reportStep_def Let_def reportNet_def reportIncome_def reportExpense_def)

lemma loop_running:
  "map br_runningBalance (runningBalanceData (foldl (reportStep h) acc ts)) =
     map br_runningBalance (runningBalanceData acc) @ runningSeries (runningBalance acc) (map reportNet ts)"
  "map br_balance (runningBalanceData (foldl (reportStep h) acc ts)) =
     map br_balance (runningBalanceData acc) @ map reportNet ts"
  "map br_date (runningBalanceData (foldl (reportStep h) acc ts)) =
     map br_date (runningBalanceData acc) @ map tanggal ts"
  by (induction ts arbitrary: acc) (simp_all add: reportStep_fields)

lemma runningSeries_length: "length (runningSeries rb xs) = length xs"
  by (induction xs arbitrary: rb) simp_all

lemma runningSeries_nth:
  "i < length xs \<Longrightarrow>
   runningSeries rb xs ! i = (if i = 0 then rb else runningSeries rb xs ! (i - 1)) + xs ! i"
proof (induction xs arbitrary: rb i)
  case Nil then show ?case by simp
next
  case (Cons x xs)
  show ?case
  proof (cases i)
    case 0 then show ?thesis by simp
  next
    case (Suc j)
    then have "j < length xs" using Cons.prems by simp
    from Cons.IH [OF this, of "rb + x"] Suc show ?thesis
      by (cases j) simp_all
  qed
qed

subsection \<open>Buckets\<close>













lemma sumNumbers_sum_list: "sumNumbers vs = sum_list (map numberOnly vs)"
  by (simp add: sumNumbers_def foldl_plus_jsnum)

lemma finite_numberOnly:
  "list_all (\<lambda>p. isFinite (snd p)) m \<Longrightarrow>
   sum_list (map (\<lambda>p. numberOnly (snd p)) m) = sum_list (map (\<lambda>p. valueOf (snd p)) m)"
  by (induction m) (auto elim: isFinite.elims)

lemma numericMap_report: "numericMap f \<Longrightarrow> sumNumbers (objectValues f) = mapTotal f"
proof (cases f)
  case (Scalar v) assume "numericMap f" then show ?thesis using Scalar by simp
next
  case (Dict m)
  assume "numericMap f"
  then have "list_all (\<lambda>p. isFinite (snd p)) m" using Dict by simp
  from finite_numberOnly [OF this] show ?thesis
    using Dict by (simp add: sumNumbers_sum_list mapTotal_def comp_def)
qed

lemma numericTx_net: "numericTx t \<Longrightarrow> reportNet t = netAmount t"
  by (simp add: numericTx_def reportNet_def reportIncome_def reportExpense_def netAmount_def
      numericMap_report)




lemma generateReports_Some:
  "generateReports h (Some a) =
     (let acc = foldl (reportStep h)
                  \<lparr> runningBalance = 0, runningBalanceData = [], monthlyData = [], yearlyData = [] \<rparr>
                  (sortedTransactions h (transactions a))
      in if list_ex (\<lambda>t. objectEntries (penerimaan t) = None \<or> objectEntries (pengeluaran t) = None)
              (transactions a)
         then Inl TypeError
         else Inr (Some \<lparr> monthly = periodReports h (monthlyData acc),
                           yearly = periodReports h (yearlyData acc),
                           running = runningBalanceData acc,
                           income_categories = categoryTotals penerimaan (transactions a),
                           expense_categories = categoryTotals pengeluaran (transactions a),
                           net_income = sumBalances (periodReports h (monthlyData acc)),
                           net_cash_flow = sumBalances (periodReports h (monthlyData acc)) \<rparr>))"
  by (simp add: generateReports_def Let_def)

lemma report_parts:
  assumes "generateReports h (Some a) = Inr (Some r)"
  shows "running r = runningBalanceData (foldl (reportStep h)
            \<lparr> runningBalance = 0, runningBalanceData = [], monthlyData = [], yearlyData = [] \<rparr>
            (sortedTransactions h (transactions a)))"
    and "monthly r = periodReports h (monthlyData (foldl (reportStep h)
            \<lparr> runningBalance = 0, runningBalanceData = [], monthlyData = [], yearlyData = [] \<rparr>
            (sortedTransactions h (transactions a))))"
    and "yearly r = periodReports h (yearlyData (foldl (reportStep h)
            \<lparr> runningBalance = 0, runningBalanceData = [], monthlyData = [], yearlyData = [] \<rparr>
            (sortedTransactions h (transactions a))))"
  using assms unfolding generateReports_Some Let_def
  by (auto split: if_splits)


lemma report_running:
  assumes "generateReports h (Some a) = Inr (Some r)"
  shows "map br_runningBalance (running r) = runningSeries 0 (map reportNet (sortedTransactions h (transactions a)))"
    and "map br_balance (running r) = map reportNet (sortedTransactions h (transactions a))"
    and "map br_date (running r) = map tanggal (sortedTransactions h (transactions a))"
  unfolding report_parts(1) [OF assms] loop_running by simp_all







lemma kas_report: "generateReports exampleHost (Some kas) = Inr (Some kasReport)"
  by code_simp



lemma kas_valid: "list_all (validDate exampleHost) (transactions kas)"
  by code_simp

lemma kas_sorted: "sortedTransactions exampleHost (transactions kas) = [rentTx, salaryTx]"
  by code_simp

lemma kas_editor:
  "map saldo_berjalan (transactionsWithRunningBalance exampleHost (transactions kas)) = [JNum (Fin 100), JNum (Fin 70)]"
  "map tanggal (transactionsWithRunningBalance exampleHost (transactions kas)) = [''2024-01-10'', ''2024-01-05'']"
  by code_simp+

lemma editor_series:
  "map saldo_berjalan (withRunningBalance h rb txs) = map JNum (runningSeries rb (map (editorNet h) txs))"
  "map tanggal (withRunningBalance h rb txs) = map tanggal txs"
  "map jumlah (withRunningBalance h rb txs) = map (\<lambda>t. JNum (editorNet h t)) txs"
  by (induction txs arbitrary: rb) (simp_all add: Let_def editorNet_def)

text \<open>
  Claim C3, amended. In the report of an account the running-balance series follows
  the transactions sorted by date: entry \<open>i\<close> carries the date and the net (income
  minus expense) of the \<open>i\<close>-th sorted transaction, and its running balance is the
  running balance of entry \<open>i - 1\<close> (0 before the first) plus that net. The sorted
  list is a permutation of the stored one; when every date is valid it is ascending
  in time and stable (transactions of equal time keep their stored order). For a
  transaction with numeric maps the net is its net amount. The editor's
  \<open>transactionsWithRunningBalance\<close> does not sort: it accumulates in stored order.
\<close>

theorem running_balance_series:
  "(generateReports h (Some a) = Inr (Some r) \<longrightarrow>
      map br_date (running r) = map tanggal (sortedTransactions h (transactions a)) \<and>
      map br_balance (running r) = map reportNet (sortedTransactions h (transactions a)) \<and>
      map br_runningBalance (running r) = runningSeries 0 (map br_balance (running r)) \<and>
      (\<forall>i < length (running r).
          br_runningBalance (running r ! i) =
            (if i = 0 then 0 else br_runningBalance (running r ! (i - 1))) + br_balance (running r ! i))) \<and>
   mset (sortedTransactions h txs) = mset txs \<and>
   (list_all (validDate h) txs \<longrightarrow>
      sorted (map (timeOf h) (sortedTransactions h txs)) \<and>
      (\<forall>k. filter (\<lambda>t. timeOf h t = k) (sortedTransactions h txs) = filter (\<lambda>t. timeOf h t = k) txs)) \<and>
   (numericTx t \<longrightarrow> reportNet t = netAmount t) \<and>
   map saldo_berjalan (transactionsWithRunningBalance h txs) = map JNum (runningSeries 0 (map (editorNet h) txs)) \<and>
   map tanggal (transactionsWithRunningBalance h txs) = map tanggal txs"
proof (intro conjI impI allI)
  assume g: "generateReports h (Some a) = Inr (Some r)"
  show d: "map br_date (running r) = map tanggal (sortedTransactions h (transactions a))"
    and b: "map br_balance (running r) = map reportNet (sortedTransactions h (transactions a))"
    by (simp_all add: report_running [OF g])
  show s: "map br_runningBalance (running r) = runningSeries 0 (map br_balance (running r))"
    by (simp add: report_running [OF g])
  fix i assume i: "i < length (running r)"
  then have "runningSeries 0 (map br_balance (running r)) ! i =
        (if i = 0 then 0 else runningSeries 0 (map br_balance (running r)) ! (i - 1)) + map br_balance (running r) ! i"
    by (intro runningSeries_nth) simp
  then have "map br_runningBalance (running r) ! i =
        (if i = 0 then 0 else map br_runningBalance (running r) ! (i - 1)) + map br_balance (running r) ! i"
    by (simp only: s [symmetric])
  then show "br_runningBalance (running r ! i) =
               (if i = 0 then 0 else br_runningBalance (running r ! (i - 1))) + br_balance (running r ! i)"
    using i by (cases i) simp_all
next
  show "mset (sortedTransactions h txs) = mset txs"
    by (simp add: sortedTransactions_def mset_sortWith)
next
  assume v: "list_all (validDate h) txs"
  show "sorted (map (timeOf h) (sortedTransactions h txs))"
    by (simp add: sortedTransactions_sort_key [OF v])
  fix k
  show "filter (\<lambda>t. timeOf h t = k) (sortedTransactions h txs) = filter (\<lambda>t. timeOf h t = k) txs"
    by (simp add: sortedTransactions_sort_key [OF v] sort_key_stable)
next
  assume "numericTx t" then show "reportNet t = netAmount t" by (rule numericTx_net)
next
  show "map saldo_berjalan (transactionsWithRunningBalance h txs) = map JNum (runningSeries 0 (map (editorNet h) txs))"
    and "map tanggal (transactionsWithRunningBalance h txs) = map tanggal txs"
    by (simp_all add: transactionsWithRunningBalance_def editor_series)
qed

theorem running_balance_series_witness:
  "generateReports exampleHost (Some kas) = Inr (Some kasReport) \<and>
   transactions kas = [salaryTx, rentTx] \<and>
   map tanggal (transactions kas) = [''2024-01-10'', ''2024-01-05''] \<and>
   list_all (validDate exampleHost) (transactions kas) \<and>
   sortedTransactions exampleHost (transactions kas) = [rentTx, salaryTx] \<and>
   map br_date (running kasReport) = [''2024-01-05'', ''2024-01-10''] \<and>
   map br_balance (running kasReport) = [Fin (- 30), Fin 100] \<and>
   map br_runningBalance (running kasReport) = [Fin (- 30), Fin 70] \<and>
   sorted (map (timeOf exampleHost) (sortedTransactions exampleHost (transactions kas))) \<and>
   numericTx rentTx \<and> reportNet rentTx = netAmount rentTx"
proof -
  have n: "numericTx rentTx" by (simp add: numericTx_def rentTx_def)
  have t: "transactions kas = [salaryTx, rentTx]" by (simp add: kas_def)
  have d: "tanggal salaryTx = ''2024-01-10''" "tanggal rentTx = ''2024-01-05''"
    by (simp_all add: salaryTx_def rentTx_def)
  have e: "map br_balance (running kasReport) = [Fin (- 30), Fin 100]"
    "map br_runningBalance (running kasReport) = [Fin (- 30), Fin 70]"
    by (simp_all add: kasReport_def)
  show ?thesis
    using kas_report kas_valid kas_sorted n
      running_balance_series [where h = exampleHost and a = kas and r = kasReport
        and txs = "transactions kas" and t = rentTx]
    by (simp add: t d e)
qed

text \<open>
  The two transactions of the scenario, stored as 2024-01-10 (+100) then 2024-01-05
  (-30): the editor keeps that order and shows the running balances 100 and 70.
\<close>

theorem editor_running_balance_unsorted:
  "map tanggal (transactionsWithRunningBalance exampleHost (transactions kas)) = [''2024-01-10'', ''2024-01-05''] \<and>
   map saldo_berjalan (transactionsWithRunningBalance exampleHost (transactions kas)) = [JNum (Fin 100), JNum (Fin 70)]"
  by (simp add: kas_editor)


end
